theory Spec2Isabelle
  imports Main
begin

section \<open>The static file handler of \<open>src/server/http/serveStatic.ts\<close>\<close>

text \<open>
  The handler returned by \<open>serveStatic(options)\<close> is embedded as a function of the
  platform it runs on, the options, the request and the environment value. What the
  source takes from the platform (\<open>decodeURIComponent\<close>, \<open>join\<close>, \<open>lstatSync\<close>,
  \<open>Date.prototype.toUTCString\<close>) and the MIME helper \<open>./mime\<close>, which is not among the
  sources, are fields of a \<open>platform\<close> record, so that every theorem holds for every
  behaviour of these functions.

  Strings are lists of 8-bit characters, as the values of headers are on the platform;
  in a path, a character beyond ASCII stands as its UTF-8 bytes, which no test of the
  handler looks at.

  Numbers are mathematical integers. The source's Number type agrees with them on the
  safe integers, those of magnitude at most \<open>2 ^ 53 - 1\<close>: there \<open>parseInt\<close>, the
  arithmetic of the handler and \<open>toString\<close> are exact. The theorems on ranges have the
  hypothesis that the size of the file and the numbers read from the header are safe;
  \<open>createReadStream\<close> refuses a start or an end beyond that bound.
\<close>

subsection \<open>Strings\<close>

text \<open>White space as \<open>\s\<close>, \<open>String.prototype.trim\<close> and \<open>parseInt\<close> see it, for code
  units below 256: TAB, LF, VT, FF, CR, SPACE, NBSP.\<close>

definition is_space :: "char \<Rightarrow> bool" where
  "is_space c = (c \<in> set [CHR 0x09, CHR 0x0A, CHR 0x0B, CHR 0x0C, CHR 0x0D, CHR 0x20, CHR 0xA0])"

definition trim :: "string \<Rightarrow> string" where
  "trim s = rev (dropWhile is_space (rev (dropWhile is_space s)))"

text \<open>\<open>s.split(d)\<close> for a separator \<open>d\<close> of one character.\<close>

fun split_on :: "char \<Rightarrow> string \<Rightarrow> string list" where
  "split_on d [] = [[]]"
| "split_on d (c # cs) =
     (if c = d then [] # split_on d cs
      else (case split_on d cs of [] \<Rightarrow> [[c]] | p # ps \<Rightarrow> (c # p) # ps))"

fun starts_with :: "string \<Rightarrow> string \<Rightarrow> bool" where
  "starts_with [] s = True"
| "starts_with (p # ps) [] = False"
| "starts_with (p # ps) (c # cs) = (p = c \<and> starts_with ps cs)"

text \<open>\<open>s.replace(/pat/, "")\<close> for a pattern \<open>pat\<close> of literal characters: the first
  occurrence is removed.\<close>

fun remove_first :: "string \<Rightarrow> string \<Rightarrow> string" where
  "remove_first pat [] = []"
| "remove_first pat (c # cs) =
     (if starts_with pat (c # cs) then drop (length pat) (c # cs)
      else c # remove_first pat cs)"

definition to_lower :: "char \<Rightarrow> char" where
  "to_lower c =
     (case map_of (zip ''ABCDEFGHIJKLMNOPQRSTUVWXYZ'' ''abcdefghijklmnopqrstuvwxyz'') c of
        None \<Rightarrow> c | Some l \<Rightarrow> l)"

definition lower :: "string \<Rightarrow> string" where
  "lower s = map to_lower s"

fun intercalate :: "string \<Rightarrow> string list \<Rightarrow> string" where
  "intercalate sep [] = []"
| "intercalate sep [x] = x"
| "intercalate sep (x # y # ys) = x @ sep @ intercalate sep (y # ys)"

subsection \<open>Numbers\<close>

definition is_digit :: "char \<Rightarrow> bool" where
  "is_digit c = (c \<in> set ''0123456789'')"

definition digit_val :: "char \<Rightarrow> int" where
  "digit_val c =
     (case map_of (zip ''0123456789'' [0, 1, 2, 3, 4, 5, 6, 7, 8, 9]) c of
        None \<Rightarrow> 0 | Some d \<Rightarrow> d)"

definition digits_val :: "string \<Rightarrow> int" where
  "digits_val ds = foldl (\<lambda>acc c. 10 * acc + digit_val c) 0 ds"

text \<open>
  \<open>parseInt(s, 10)\<close>: leading white space is skipped, one sign is read, then the longest
  run of decimal digits; no digit gives NaN, which is \<open>None\<close> here. The argument
  \<open>undefined\<close> (an index beyond the array) is \<open>None\<close> and parses to NaN.
\<close>

definition parseInt :: "string option \<Rightarrow> int option" where
  "parseInt arg =
     (case arg of
        None \<Rightarrow> None
      | Some s \<Rightarrow>
          (let t = dropWhile is_space s;
               neg = (t \<noteq> [] \<and> hd t = CHR ''-'');
               u = (if t \<noteq> [] \<and> (hd t = CHR ''-'' \<or> hd t = CHR ''+'') then tl t else t);
               z = takeWhile is_digit u
           in if z = [] then None
              else Some (if neg then - digits_val z else digits_val z)))"

text \<open>\<open>x || d\<close> on a number \<open>x\<close>: NaN and 0 are falsy.\<close>

definition or_default :: "int option \<Rightarrow> int \<Rightarrow> int" where
  "or_default x d = (case x of None \<Rightarrow> d | Some n \<Rightarrow> if n = 0 then d else n)"

definition digit_char :: "int \<Rightarrow> char" where
  "digit_char d = ''0123456789'' ! nat d"

text \<open>The decimal digits of a number that is not negative.\<close>

function decimal :: "int \<Rightarrow> string" where
  "decimal n =
     (if n < 10 then [digit_char n] else decimal (n div 10) @ [digit_char (n mod 10)])"
  by pat_completeness auto
termination
  by (relation "measure nat") auto

declare decimal.simps [simp del]

text \<open>\<open>Number.prototype.toString\<close> on an integer.\<close>

definition toString :: "int \<Rightarrow> string" where
  "toString i = (if i < 0 then CHR ''-'' # decimal (- i) else decimal i)"

text \<open>\<open>arr[i]\<close>: \<open>undefined\<close> out of range.\<close>

definition at_index :: "'a list \<Rightarrow> nat \<Rightarrow> 'a option" where
  "at_index xs i = (if i < length xs then Some (xs ! i) else None)"

subsection \<open>Headers\<close>

text \<open>A \<open>Headers\<close> object: names are compared without case; \<open>get\<close> joins the values of
  one name with a comma and a space.\<close>

type_synonym headers = "(string \<times> string) list"

definition headers_get :: "headers \<Rightarrow> string \<Rightarrow> string option" where
  "headers_get h name =
     (case filter (\<lambda>(k, v). lower k = lower name) h of
        [] \<Rightarrow> None
      | kvs \<Rightarrow> Some (intercalate '', '' (map snd kvs)))"

text \<open>\<open>set\<close> puts the value at the first entry of that name and drops the others; without
  such an entry it adds one at the end, as \<open>append\<close> always does.\<close>

fun headers_set :: "string \<Rightarrow> string \<Rightarrow> headers \<Rightarrow> headers" where
  "headers_set name v [] = [(lower name, v)]"
| "headers_set name v ((k, x) # h) =
     (if lower k = lower name
      then (lower name, v) # filter (\<lambda>(k', _). lower k' \<noteq> lower name) h
      else (k, x) # headers_set name v h)"

definition headers_append :: "string \<Rightarrow> string \<Rightarrow> headers \<Rightarrow> headers" where
  "headers_append name v h = h @ [(lower name, v)]"

subsection \<open>The platform, the options, requests and responses\<close>

text \<open>The fields of \<open>Stats\<close> the handler reads. \<open>birthtime\<close> is a time in milliseconds.\<close>

record stats =
  isDirectory :: bool
  st_size :: int
  birthtime :: int

text \<open>
  \<open>decodeURIComponent\<close> returns \<open>None\<close> where it throws URIError, \<open>lstatSync\<close> where
  it throws (no such entry). \<open>getMimeType\<close> returns \<open>None\<close> for \<open>undefined\<close>.
\<close>

record platform =
  decodeURIComponent :: "string \<Rightarrow> string option"
  path_join :: "string \<Rightarrow> string \<Rightarrow> string"
  lstatSync :: "string \<Rightarrow> stats option"
  getMimeType :: "string \<Rightarrow> string option"
  toUTCString :: "int \<Rightarrow> string"

text \<open>What the handler can throw: the ReferenceError of an undeclared identifier, the
  RangeError with which \<open>createReadStream\<close> refuses its options, and whatever a
  not-found collaborator throws.\<close>

datatype error = ReferenceError string | RangeError | CollaboratorError string

text \<open>A body is absent (\<open>null\<close>), a string, or the stream made by \<open>createStreamBody\<close>
  from \<open>createReadStream(path)\<close> or \<open>createReadStream(path, {start, end})\<close>. The stream
  reads lazily: the body records the path and the range it was created with.\<close>

datatype body = NoBody | TextBody string | StreamBody string "(int \<times> int) option"

record response =
  status :: int
  resp_headers :: headers
  resp_body :: body

text \<open>A request: its method, \<open>new URL(req.url).pathname\<close> and its headers.\<close>

record request =
  req_method :: string
  req_pathname :: string
  req_headers :: headers

text \<open>\<open>ServeStaticOptions\<close>; an absent option is \<open>None\<close>. The not-found collaborator
  may throw, which is \<open>Inl\<close>. The rewrite function is kept with its first argument: the
  handler never gets as far as calling it (see \<open>locate\<close> below).\<close>

record 'e options =
  opt_root :: "string option"
  opt_path :: "string option"
  opt_index :: "string option"
  opt_precompressed :: "bool option"
  opt_rewriteRequestPath :: "(string \<Rightarrow> string) option"
  opt_onNotFound :: "(request \<Rightarrow> 'e \<Rightarrow> error + response) option"

text \<open>What the handler does to the outside, in order: calls of the not-found
  collaborator, of \<open>lstatSync\<close> (through \<open>getStats\<close>) and of \<open>createReadStream\<close>.\<close>

datatype event =
    NotFoundCalled
  | Lstat string
  | CreateReadStream string "(int \<times> int) option"

type_synonym result = "(error + response) \<times> event list"

definition after :: "event list \<Rightarrow> result \<Rightarrow> result" where
  "after evs r = (fst r, evs @ snd r)"

text \<open>Truthiness of an optional string and of an optional boolean.\<close>

definition truthy_str :: "string option \<Rightarrow> bool" where
  "truthy_str x = (case x of None \<Rightarrow> False | Some s \<Rightarrow> s \<noteq> [])"

definition truthy_bool :: "bool option \<Rightarrow> bool" where
  "truthy_bool x = (case x of None \<Rightarrow> False | Some b \<Rightarrow> b)"

subsection \<open>The two regular expressions\<close>

text \<open>
  \<^verbatim>\<open>/(?:^|[\/\\])\.\.(?:$|[\/\\])/\<close>: two dots, with the start of the string or a
  separator before them and the end of the string or a separator after them.
  \<open>dotdot_here\<close> matches \<^verbatim>\<open>\.\.(?:$|[\/\\])\<close> at the start of its argument;
  \<open>dotdot_after_sep\<close> looks for a separator with such a match right after it.
\<close>

definition is_sep :: "char \<Rightarrow> bool" where
  "is_sep c = (c = CHR ''/'' \<or> c = CHR 0x5C)"

fun dotdot_here :: "string \<Rightarrow> bool" where
  "dotdot_here (a # b # rest) =
     (a = CHR ''.'' \<and> b = CHR ''.'' \<and> (case rest of [] \<Rightarrow> True | c # _ \<Rightarrow> is_sep c))"
| "dotdot_here _ = False"

fun dotdot_after_sep :: "string \<Rightarrow> bool" where
  "dotdot_after_sep [] = False"
| "dotdot_after_sep (c # cs) = ((is_sep c \<and> dotdot_here cs) \<or> dotdot_after_sep cs)"

definition traversal_test :: "string \<Rightarrow> bool" where
  "traversal_test s = (dotdot_here s \<or> dotdot_after_sep s)"

text \<open>
  The specification's words for the same test: the path has a segment \<open>..\<close>, where the
  segments are what lies between the separators, the start and the end of the path.
\<close>

fun path_segments :: "string \<Rightarrow> string list" where
  "path_segments [] = [[]]"
| "path_segments (c # cs) =
     (if is_sep c then [] # path_segments cs
      else (case path_segments cs of [] \<Rightarrow> [[c]] | p # ps \<Rightarrow> (c # p) # ps))"

definition spec_traversal_segment :: "string \<Rightarrow> bool" where
  "spec_traversal_segment s = (''..'' \<in> set (path_segments s))"

text \<open>
  \<open>COMPRESSIBLE_CONTENT_TYPE_REGEX\<close>, with the flag \<open>i\<close>: after leading white space
  comes one of the alternatives, and then a semicolon, white space or the end. No
  alternative can consume a semicolon or white space, so what an alternative matches
  is the whole first token of the string.
\<close>

definition is_delim :: "char \<Rightarrow> bool" where
  "is_delim c = (c = CHR '';'' \<or> is_space c)"

definition application_subtypes :: "string list" where
  "application_subtypes =
     [''javascript'', ''json'', ''xml'', ''xml-dtd'', ''ecmascript'', ''dart'', ''postscript'',
      ''rtf'', ''tar'', ''toml'', ''vnd.dart'', ''vnd.ms-fontobject'', ''vnd.ms-opentype'',
      ''wasm'', ''x-httpd-php'', ''x-javascript'', ''x-ns-proxy-autoconfig'', ''x-sh'', ''x-tar'',
      ''x-virtualbox-hdd'', ''x-virtualbox-ova'', ''x-virtualbox-ovf'', ''x-virtualbox-vbox'',
      ''x-virtualbox-vdi'', ''x-virtualbox-vhd'', ''x-virtualbox-vmdk'',
      ''x-www-form-urlencoded'']"

definition image_subtypes :: "string list" where
  "image_subtypes =
     [''bmp'', ''vnd.adobe.photoshop'', ''vnd.microsoft.icon'', ''vnd.ms-dds'', ''x-icon'',
      ''x-ms-bmp'']"

definition literal_types :: "string list" where
  "literal_types =
     map (\<lambda>t. ''application/'' @ t) application_subtypes
     @ [''font/otf'', ''font/ttf'']
     @ map (\<lambda>t. ''image/'' @ t) image_subtypes
     @ [''message/rfc822'', ''model/gltf-binary'', ''x-shader/x-fragment'', ''x-shader/x-vertex'']"

definition ends_with :: "string \<Rightarrow> string \<Rightarrow> bool" where
  "ends_with suf s = starts_with (rev suf) (rev s)"

definition COMPRESSIBLE_CONTENT_TYPE_REGEX_test :: "string \<Rightarrow> bool" where
  "COMPRESSIBLE_CONTENT_TYPE_REGEX_test s =
     (let tok = takeWhile (\<lambda>c. \<not> is_delim c) (dropWhile is_space (lower s))
      in (starts_with ''text/'' tok \<and> length ''text/'' < length tok)
         \<or> tok \<in> set literal_types
         \<or> list_ex (\<lambda>suf. ends_with suf tok \<and> length suf < length tok)
              [''+json'', ''+text'', ''+xml'', ''+yaml''])"

subsection \<open>The body of a streamed response\<close>






subsection \<open>The handler\<close>

text \<open>The default not-found handler, and the collaborator the handler calls:
  \<open>options.onNotFound || (() => new Response("Not Found", { status: 404 }))\<close>. A
  response made from a string has the content type of plain text.\<close>

definition default_onNotFound :: response where
  "default_onNotFound =
     \<lparr>status = 404, resp_headers = [(''content-type'', ''text/plain;charset=UTF-8'')],
      resp_body = TextBody ''Not Found''\<rparr>"

definition onNotFound :: "'e options \<Rightarrow> request \<Rightarrow> 'e \<Rightarrow> result" where
  "onNotFound options req env =
     ((case opt_onNotFound options of None \<Rightarrow> Inr default_onNotFound | Some h \<Rightarrow> h req env),
      [NotFoundCalled])"

text \<open>\<open>getStats\<close>: \<open>undefined\<close> when \<open>lstatSync\<close> throws.\<close>

definition getStats :: "platform \<Rightarrow> string \<Rightarrow> stats option" where
  "getStats P path = lstatSync P path"

definition ENCODINGS :: "(string \<times> string) list" where
  "ENCODINGS = [(''br'', ''.br''), (''zstd'', ''.zst''), (''gzip'', ''.gz'')]"

text \<open>
  Lines 82 to 93: the name to serve, or \<open>None\<close> where the handler returns through the
  not-found collaborator. The error thrown on a traversal segment and the URIError of
  \<open>decodeURIComponent\<close> reach the same \<open>catch\<close>.
\<close>

definition requested_filename :: "platform \<Rightarrow> 'e options \<Rightarrow> request \<Rightarrow> string option" where
  "requested_filename P options req =
     (if truthy_str (opt_path options) then opt_path options
      else (case decodeURIComponent P (req_pathname req) of
              None \<Rightarrow> None
            | Some filename \<Rightarrow> if traversal_test filename then None else Some filename))"

text \<open>Lines 104 to 108: a directory is replaced by its index file, stat'ed once.\<close>

definition index_step ::
  "platform \<Rightarrow> 'e options \<Rightarrow> string \<Rightarrow> stats option \<Rightarrow> (string \<times> stats option) \<times> event list" where
  "index_step P options path stats =
     (case stats of
        None \<Rightarrow> ((path, stats), [])
      | Some st \<Rightarrow>
          if isDirectory st
          then (let indexFile = (case opt_index options of None \<Rightarrow> ''index.html'' | Some i \<Rightarrow> i);
                    path' = path_join P path indexFile
                in ((path', getStats P path'), [Lstat path']))
          else ((path, stats), []))"

text \<open>Lines 123 to 128: the set of accepted encodings.\<close>

definition acceptEncodingSet :: "request \<Rightarrow> string set" where
  "acceptEncodingSet req =
     (case headers_get (req_headers req) ''Accept-Encoding'' of
        None \<Rightarrow> {}
      | Some v \<Rightarrow> set (map trim (split_on CHR '','' v)))"

text \<open>Lines 130 to 142: the loop over the table, which stops at the first accepted
  encoding whose file exists. It carries the headers, the path and the stats. The source
  runs over the keys of \<open>ENCODINGS\<close> in the order of the object literal and looks each
  suffix up; the loop here runs over the pairs in that order.\<close>

fun probe_encodings ::
  "platform \<Rightarrow> string set \<Rightarrow> (string \<times> string) list \<Rightarrow> headers \<Rightarrow> string \<Rightarrow> stats
     \<Rightarrow> (headers \<times> string \<times> stats) \<times> event list" where
  "probe_encodings P accepted [] headers path st = ((headers, path, st), [])"
| "probe_encodings P accepted ((encoding, suffix) # rest) headers path st =
     (if encoding \<notin> accepted then probe_encodings P accepted rest headers path st
      else (case getStats P (path @ suffix) of
              None \<Rightarrow>
                (let (r, evs) = probe_encodings P accepted rest headers path st
                 in (r, Lstat (path @ suffix) # evs))
            | Some precompressedStats \<Rightarrow>
                ((headers_append ''Vary'' ''Accept-Encoding''
                    (headers_set ''Content-Encoding'' encoding headers),
                  path @ suffix, precompressedStats),
                 [Lstat (path @ suffix)])))"

text \<open>Lines 163 to 165: the two fields of the range, and the start and the end read
  from them.\<close>

definition range_parts :: "string \<Rightarrow> string list" where
  "range_parts rangeHeader = take 2 (split_on CHR ''-'' (remove_first ''bytes='' rangeHeader))"

definition range_start :: "string \<Rightarrow> int" where
  "range_start rangeHeader = or_default (parseInt (at_index (range_parts rangeHeader) 0)) 0"

definition range_end :: "string \<Rightarrow> int \<Rightarrow> int" where
  "range_end rangeHeader fsize =
     or_default (parseInt (at_index (range_parts rangeHeader) 1)) (fsize - 1)"

text \<open>Lines 163 to 168: the start and the end, after the clamp of lines 166 to 168.\<close>

definition parse_range :: "string \<Rightarrow> int \<Rightarrow> int \<times> int" where
  "parse_range rangeHeader fsize =
     (let start = range_start rangeHeader;
          end0 = range_end rangeHeader fsize;
          end' = (if fsize < end0 - start + 1 then fsize - 1 else end0)
      in (start, end'))"

text \<open>
  \<open>createReadStream(path, {start, end})\<close> of \<open>node:fs\<close> checks its options when it is
  called, before anything is read: the start and the end must be integers from 0 to
  \<open>Number.MAX_SAFE_INTEGER\<close>, and the start must not be above the end. Otherwise it
  throws a RangeError. (An end of Infinity is let through; with integers for numbers
  it falls under the bound, and the handler never passes it with a start that is let
  through.) \<open>createReadStream(path)\<close> has no options to check.
\<close>

definition MAX_SAFE_INTEGER :: int where
  "MAX_SAFE_INTEGER = 2 ^ 53 - 1"

definition safe_integer :: "int \<Rightarrow> bool" where
  "safe_integer n = (- MAX_SAFE_INTEGER \<le> n \<and> n \<le> MAX_SAFE_INTEGER)"

definition createReadStream_accepts :: "int \<Rightarrow> int \<Rightarrow> bool" where
  "createReadStream_accepts start end' =
     (0 \<le> start \<and> start \<le> MAX_SAFE_INTEGER \<and> 0 \<le> end' \<and> end' \<le> MAX_SAFE_INTEGER
      \<and> start \<le> end')"

text \<open>Lines 145 to 176: the response for the final path and stats. The call of line 171
  comes before the headers of lines 173 and 174 and the response of line 176, and is in
  no \<open>try\<close>: where it throws, the handler throws.\<close>

definition respond :: "platform \<Rightarrow> request \<Rightarrow> headers \<Rightarrow> string \<Rightarrow> stats \<Rightarrow> result" where
  "respond P req headers path st =
     (let fsize = st_size st in
      if req_method req = ''HEAD'' \<or> req_method req = ''OPTIONS''
      then (Inr \<lparr>status = 200,
                 resp_headers = headers_set ''Content-Length'' (toString fsize) headers,
                 resp_body = NoBody\<rparr>, [])
      else
        (let rangeHeader =
               (case headers_get (req_headers req) ''range'' of None \<Rightarrow> [] | Some r \<Rightarrow> r) in
         if rangeHeader = []
         then (Inr \<lparr>status = 200,
                    resp_headers = headers_set ''Content-Length'' (toString fsize) headers,
                    resp_body = StreamBody path None\<rparr>,
               [CreateReadStream path None])
         else
           (let h1 = headers_set ''Accept-Ranges'' ''bytes'' headers;
                h2 = headers_set ''Date'' (toUTCString P (birthtime st)) h1;
                (start, end') = parse_range rangeHeader fsize;
                chunksize = end' - start + 1;
                h3 = headers_set ''Content-Length'' (toString chunksize) h2;
                h4 = headers_set ''Content-Range''
                       (''bytes '' @ toString start @ ''-'' @ toString end' @ ''/''
                          @ toString (st_size st)) h3
            in if createReadStream_accepts start end'
               then (Inr \<lparr>status = 206, resp_headers = h4,
                          resp_body = StreamBody path (Some (start, end'))\<rparr>,
                     [CreateReadStream path (Some (start, end'))])
               else (Inl RangeError, [CreateReadStream path (Some (start, end'))]))))"

text \<open>Lines 114 to 143: the content type of the path, and the precompressed variant
  where the option is on and the type is absent or compressible. The result is the
  headers so far, the final path and the final stats.\<close>

definition negotiable :: "'e options \<Rightarrow> string option \<Rightarrow> bool" where
  "negotiable options mimeType =
     (truthy_bool (opt_precompressed options)
      \<and> (\<not> truthy_str mimeType
         \<or> (case mimeType of None \<Rightarrow> False | Some m \<Rightarrow> COMPRESSIBLE_CONTENT_TYPE_REGEX_test m)))"

definition negotiate ::
  "platform \<Rightarrow> 'e options \<Rightarrow> request \<Rightarrow> string \<Rightarrow> stats
     \<Rightarrow> (headers \<times> string \<times> stats) \<times> event list" where
  "negotiate P options req path st =
     (let mimeType = getMimeType P path;
          headers = headers_set ''Content-Type''
                      (case mimeType of
                         None \<Rightarrow> ''application/octet-stream''
                       | Some m \<Rightarrow> if m = [] then ''application/octet-stream'' else m) []
      in if negotiable options mimeType
         then probe_encodings P (acceptEncodingSet req) ENCODINGS headers path st
         else ((headers, path, st), []))"

text \<open>
  Lines 79 to 112: the path and the stats of the entry to serve (\<open>Inr\<close>), or the
  result the handler returns at once (\<open>Inl\<close>). In line 98 the argument \<open>c\<close> of
  \<open>options.rewriteRequestPath(filename, c)\<close> is an identifier that the file neither
  declares nor imports: evaluating it throws a ReferenceError before the rewrite
  function is called, and before \<open>join\<close>. Nothing catches it.
\<close>

definition locate ::
  "platform \<Rightarrow> 'e options \<Rightarrow> request \<Rightarrow> 'e \<Rightarrow> result + ((string \<times> stats) \<times> event list)" where
  "locate P options req env =
     (let root = (case opt_root options of None \<Rightarrow> [] | Some r \<Rightarrow> r) in
      case requested_filename P options req of
        None \<Rightarrow> Inl (onNotFound options req env)
      | Some filename \<Rightarrow>
          if \<not> truthy_str (opt_path options) \<and> opt_rewriteRequestPath options \<noteq> None
          then Inl (Inl (ReferenceError ''c''), [])
          else
            (let path = path_join P root filename;
                 stats = getStats P path;
                 ((path', stats'), evs) = index_step P options path stats
             in case stats' of
                  None \<Rightarrow> Inl (after (Lstat path # evs) (onNotFound options req env))
                | Some st \<Rightarrow> Inr ((path', st), Lstat path # evs)))"

text \<open>The handler that \<open>serveStatic(options)\<close> returns. \<open>console.log(env)\<close> has no part
  in the result.\<close>

definition serveStatic :: "platform \<Rightarrow> 'e options \<Rightarrow> request \<Rightarrow> 'e \<Rightarrow> result" where
  "serveStatic P options req env =
     (case locate P options req env of
        Inl r \<Rightarrow> r
      | Inr ((path, st), evs) \<Rightarrow>
          (let ((headers, path', st'), evs') = negotiate P options req path st
           in after (evs @ evs') (respond P req headers path' st')))"

subsection \<open>A platform for the examples\<close>

text \<open>
  The examples run on a platform over a fixed table of directory entries, with
  percent-decoding as \<open>decodeURIComponent\<close> does it (an escape that is not two
  hexadecimal digits fails, and so does an escaped byte sequence that is not UTF-8),
  with the \<open>join\<close> of POSIX paths, and with a small table of MIME types.
\<close>

definition hex_val :: "char \<Rightarrow> int option" where
  "hex_val c =
     map_of (zip ''0123456789abcdefABCDEF''
               [0, 1, 2, 3, 4, 5, 6, 7, 8, 9, 10, 11, 12, 13, 14, 15, 10, 11, 12, 13, 14, 15]) c"

fun percent_decode :: "string \<Rightarrow> int list option" where
  "percent_decode [] = Some []"
| "percent_decode (c # cs) =
     (if c = CHR ''%''
      then (case cs of
              h # l # rest \<Rightarrow>
                (case (hex_val h, hex_val l) of
                   (Some a, Some b) \<Rightarrow> map_option ((#) (16 * a + b)) (percent_decode rest)
                 | _ \<Rightarrow> None)
            | _ \<Rightarrow> None)
      else map_option ((#) (of_char c)) (percent_decode cs))"

definition is_cont :: "int \<Rightarrow> bool" where
  "is_cont b = (0x80 \<le> b \<and> b \<le> 0xBF)"

fun utf8_ok :: "int list \<Rightarrow> bool" where
  "utf8_ok [] = True"
| "utf8_ok (b # bs) =
     (if b < 0x80 then utf8_ok bs
      else if 0xC2 \<le> b \<and> b \<le> 0xDF
        then (case bs of c1 # r \<Rightarrow> is_cont c1 \<and> utf8_ok r | _ \<Rightarrow> False)
      else if 0xE0 \<le> b \<and> b \<le> 0xEF
        then (case bs of
                c1 # c2 # r \<Rightarrow>
                  is_cont c1 \<and> is_cont c2 \<and> (if b = 0xE0 then 0xA0 \<le> c1 else True)
                  \<and> (if b = 0xED then c1 \<le> 0x9F else True) \<and> utf8_ok r
              | _ \<Rightarrow> False)
      else if 0xF0 \<le> b \<and> b \<le> 0xF4
        then (case bs of
                c1 # c2 # c3 # r \<Rightarrow>
                  is_cont c1 \<and> is_cont c2 \<and> is_cont c3
                  \<and> (if b = 0xF0 then 0x90 \<le> c1 else True)
                  \<and> (if b = 0xF4 then c1 \<le> 0x8F else True) \<and> utf8_ok r
              | _ \<Rightarrow> False)
      else False)"

definition decode_uri :: "string \<Rightarrow> string option" where
  "decode_uri s =
     (case percent_decode s of
        None \<Rightarrow> None
      | Some bs \<Rightarrow> if utf8_ok bs then Some (map char_of bs) else None)"

fun normalize_segments :: "bool \<Rightarrow> string list \<Rightarrow> string list \<Rightarrow> string list" where
  "normalize_segments allowAbove st [] = rev st"
| "normalize_segments allowAbove st (s # ss) =
     (if s = [] \<or> s = ''.'' then normalize_segments allowAbove st ss
      else if s = ''..''
        then (case st of
                [] \<Rightarrow> normalize_segments allowAbove (if allowAbove then [s] else []) ss
              | t # ts \<Rightarrow>
                  if t = ''..'' then normalize_segments allowAbove (s # st) ss
                  else normalize_segments allowAbove ts ss)
      else normalize_segments allowAbove (s # st) ss)"

definition posix_normalize :: "string \<Rightarrow> string" where
  "posix_normalize p =
     (if p = [] then ''.''
      else
        (let isAbsolute = (hd p = CHR ''/'');
             trailing = (last p = CHR ''/'');
             r = intercalate ''/'' (normalize_segments (\<not> isAbsolute) [] (split_on CHR ''/'' p))
         in if r = [] then (if isAbsolute then ''/'' else if trailing then ''./'' else ''.'')
            else (if isAbsolute then ''/'' else []) @ r @ (if trailing then ''/'' else [])))"

definition posix_join :: "string \<Rightarrow> string \<Rightarrow> string" where
  "posix_join a b =
     (let parts = filter (\<lambda>x. x \<noteq> []) [a, b]
      in if parts = [] then ''.'' else posix_normalize (intercalate ''/'' parts))"

definition example_mime :: "string \<Rightarrow> string option" where
  "example_mime path =
     (if ends_with ''.html'' path then Some ''text/html''
      else if ends_with ''.txt'' path then Some ''text/plain''
      else if ends_with ''.js'' path then Some ''text/javascript''
      else if ends_with ''.png'' path then Some ''image/png''
      else None)"

definition example_date :: "int \<Rightarrow> string" where
  "example_date t =
     (if t = 0 then ''Thu, 01 Jan 1970 00:00:00 GMT'' else ''epoch+'' @ toString t @ ''ms'')"

definition example_lstat :: "(string \<times> stats) list \<Rightarrow> string \<Rightarrow> stats option" where
  "example_lstat entries p =
     (if 1 < length p \<and> last p = CHR ''/''
      then (case map_of entries (butlast p) of
              None \<Rightarrow> None
            | Some st \<Rightarrow> if isDirectory st then Some st else None)
      else map_of entries p)"

definition example_platform :: "(string \<times> stats) list \<Rightarrow> platform" where
  "example_platform entries =
     \<lparr>decodeURIComponent = decode_uri, path_join = posix_join,
      lstatSync = example_lstat entries,
      getMimeType = example_mime, toUTCString = example_date\<rparr>"

definition file_of_size :: "int \<Rightarrow> stats" where
  "file_of_size n = \<lparr>isDirectory = False, st_size = n, birthtime = 0\<rparr>"

definition directory :: stats where
  "directory = \<lparr>isDirectory = True, st_size = 4096, birthtime = 0\<rparr>"

definition example_entries :: "(string \<times> stats) list" where
  "example_entries =
     [(''public'', directory),
      (''public/file.txt'', file_of_size 500),
      (''public/file.txt.br'', file_of_size 120),
      (''public/file.txt.gz'', file_of_size 150),
      (''public/app.js'', file_of_size 900),
      (''public/app.js.br'', file_of_size 300),
      (''public/app.js.zst'', file_of_size 320),
      (''public/app.js.gz'', file_of_size 350),
      (''public/zero.txt'', file_of_size 0),
      (''public/docs'', directory),
      (''public/docs/index.html'', file_of_size 42),
      (''public/empty'', directory),
      (''public/nested'', directory),
      (''public/nested/index.html'', directory)]"

definition example_options :: "unit options" where
  "example_options =
     \<lparr>opt_root = Some ''public'', opt_path = None, opt_index = None,
      opt_precompressed = None, opt_rewriteRequestPath = None, opt_onNotFound = None\<rparr>"

definition get_request :: "string \<Rightarrow> headers \<Rightarrow> request" where
  "get_request p h = \<lparr>req_method = ''GET'', req_pathname = p, req_headers = h\<rparr>"

section \<open>Properties\<close>

text \<open>
  In the theorems on responses, a request \<^emph>\<open>resolves to a file\<close> when \<open>locate\<close> returns an
  entry (\<open>Inr\<close>); the file that is served is the one \<open>negotiate\<close> returns for that
  entry: the entry itself or its precompressed variant. \<open>evs0\<close> and \<open>evs1\<close> are the
  calls of \<open>lstatSync\<close> made on the way.
\<close>

subsection \<open>Headers\<close>

lemma to_lower_idem: "to_lower (to_lower c) = to_lower c"
  by (auto simp: to_lower_def split: if_splits)

lemma lower_idem: "lower (lower s) = lower s"
  by (simp add: lower_def to_lower_idem)

lemma headers_get_set_same: "headers_get (headers_set name v h) name = Some v"
proof (induction h)
  case Nil
  show ?case by (simp add: headers_get_def lower_idem)
next
  case (Cons kx h)
  obtain k x where kx: "kx = (k, x)" by (cases kx)
  have f: "filter (\<lambda>(k, v). lower k = lower name) (filter (\<lambda>(k', _). lower k' \<noteq> lower name) h) = []"
    by (induction h) auto
  show ?case
  proof (cases "lower k = lower name")
    case True
    then show ?thesis using f by (simp add: kx headers_get_def lower_idem)
  next
    case False
    then show ?thesis using Cons.IH by (simp add: kx headers_get_def)
  qed
qed

lemma filter_headers_set_other:
  "lower m \<noteq> lower name \<Longrightarrow>
   filter (\<lambda>(k, v). lower k = lower m) (headers_set name v h)
     = filter (\<lambda>(k, v). lower k = lower m) h"
proof (induction h)
  case Nil
  then show ?case by (auto simp: lower_idem)
next
  case (Cons kx h)
  obtain k x where kx: "kx = (k, x)" by (cases kx)
  have f: "filter (\<lambda>(k, v). lower k = lower m) (filter (\<lambda>(k', _). lower k' \<noteq> lower name) h)
           = filter (\<lambda>(k, v). lower k = lower m) h"
    using Cons.prems by (induction h) auto
  show ?case
  proof (cases "lower k = lower name")
    case True
    then show ?thesis using f Cons.prems by (auto simp add: kx lower_idem)
  next
    case False
    then show ?thesis using Cons.IH Cons.prems by (simp add: kx)
  qed
qed

lemma headers_get_set_other:
  "lower m \<noteq> lower name \<Longrightarrow> headers_get (headers_set name v h) m = headers_get h m"
  by (simp add: headers_get_def filter_headers_set_other)

lemma headers_get_append_other:
  "lower m \<noteq> lower name \<Longrightarrow> headers_get (headers_append name v h) m = headers_get h m"
  by (auto simp: headers_get_def headers_append_def lower_idem)

lemma serveStatic_located:
  assumes "locate P options req env = Inr ((path0, st0), evs0)"
      and "negotiate P options req path0 st0 = ((headers, path, st), evs1)"
  shows "serveStatic P options req env = after (evs0 @ evs1) (respond P req headers path st)"
  using assms by (simp add: serveStatic_def)

lemma lower_names:
  "lower ''Content-Type'' = ''content-type''"
  "lower ''Content-Encoding'' = ''content-encoding''"
  "lower ''Vary'' = ''vary''"
  "lower ''Content-Length'' = ''content-length''"
  "lower ''Accept-Ranges'' = ''accept-ranges''"
  "lower ''Date'' = ''date''"
  "lower ''Content-Range'' = ''content-range''"
  by (simp_all add: lower_def to_lower_def)

lemma respond_head:
  assumes "req_method req = ''HEAD'' \<or> req_method req = ''OPTIONS''"
  shows "respond P req headers path st =
           (Inr \<lparr>status = 200,
                 resp_headers = headers_set ''Content-Length'' (toString (st_size st)) headers,
                 resp_body = NoBody\<rparr>, [])"
  using assms by (auto simp add: respond_def)

lemma respond_full:
  assumes "req_method req \<noteq> ''HEAD''" and "req_method req \<noteq> ''OPTIONS''"
      and "headers_get (req_headers req) ''range'' = None"
  shows "respond P req headers path st =
           (Inr \<lparr>status = 200,
                 resp_headers = headers_set ''Content-Length'' (toString (st_size st)) headers,
                 resp_body = StreamBody path None\<rparr>,
            [CreateReadStream path None])"
  using assms by (simp add: respond_def)

lemma respond_range:
  assumes "req_method req \<noteq> ''HEAD''" and "req_method req \<noteq> ''OPTIONS''"
      and "headers_get (req_headers req) ''range'' = Some r" and "r \<noteq> []"
      and "parse_range r (st_size st) = (start, end')"
      and "createReadStream_accepts start end'"
  shows "respond P req headers path st =
           (Inr \<lparr>status = 206,
                 resp_headers =
                   headers_set ''Content-Range''
                     (''bytes '' @ toString start @ ''-'' @ toString end' @ ''/''
                        @ toString (st_size st))
                     (headers_set ''Content-Length'' (toString (end' - start + 1))
                        (headers_set ''Date'' (toUTCString P (birthtime st))
                           (headers_set ''Accept-Ranges'' ''bytes'' headers))),
                 resp_body = StreamBody path (Some (start, end'))\<rparr>,
            [CreateReadStream path (Some (start, end'))])"
  using assms by (simp add: respond_def Let_def)

lemma respond_refused:
  assumes "req_method req \<noteq> ''HEAD''" and "req_method req \<noteq> ''OPTIONS''"
      and "headers_get (req_headers req) ''range'' = Some r" and "r \<noteq> []"
      and "parse_range r (st_size st) = (start, end')"
      and "\<not> createReadStream_accepts start end'"
  shows "respond P req headers path st
           = (Inl RangeError, [CreateReadStream path (Some (start, end'))])"
  using assms by (simp add: respond_def Let_def)

lemma range_headers:
  assumes "h' = headers_set ''Content-Range'' cr
                   (headers_set ''Content-Length'' cl
                      (headers_set ''Date'' d (headers_set ''Accept-Ranges'' ar h)))"
  shows "headers_get h' ''Content-Range'' = Some cr"
    and "headers_get h' ''Content-Length'' = Some cl"
    and "headers_get h' ''Date'' = Some d"
    and "headers_get h' ''Accept-Ranges'' = Some ar"
  unfolding assms
  by (simp_all add: headers_get_set_same headers_get_set_other lower_names)

lemma range_headers_other:
  assumes "lower n \<notin> {''content-range'', ''content-length'', ''date'', ''accept-ranges''}"
  shows "headers_get (headers_set ''Content-Range'' cr
                   (headers_set ''Content-Length'' cl
                      (headers_set ''Date'' d (headers_set ''Accept-Ranges'' ar h)))) n
         = headers_get h n"
  using assms by (simp add: headers_get_set_other lower_names)

subsection \<open>The stages of the handler\<close>












lemma serveStatic_range:
  assumes loc: "locate P options req env = Inr ((path0, st0), evs0)"
      and neg: "negotiate P options req path0 st0 = ((headers, path, st), evs1)"
      and m: "req_method req \<noteq> ''HEAD''" "req_method req \<noteq> ''OPTIONS''"
      and r: "headers_get (req_headers req) ''range'' = Some r" "r \<noteq> []"
      and pr: "parse_range r (st_size st) = (start, end')"
      and ok: "createReadStream_accepts start end'"
  shows "\<exists>resp. serveStatic P options req env
                  = (Inr resp, evs0 @ evs1 @ [CreateReadStream path (Some (start, end'))])
           \<and> status resp = 206
           \<and> headers_get (resp_headers resp) ''Content-Range''
               = Some (''bytes '' @ toString start @ ''-'' @ toString end' @ ''/''
                         @ toString (st_size st))
           \<and> headers_get (resp_headers resp) ''Content-Length'' = Some (toString (end' - start + 1))
           \<and> headers_get (resp_headers resp) ''Accept-Ranges'' = Some ''bytes''
           \<and> headers_get (resp_headers resp) ''Date'' = Some (toUTCString P (birthtime st))
           \<and> headers_get (resp_headers resp) ''Content-Type'' = headers_get headers ''Content-Type''
           \<and> resp_body resp = StreamBody path (Some (start, end'))"
  unfolding serveStatic_located [OF loc neg] respond_range [OF m r pr ok]
  by (simp add: after_def range_headers [OF refl] range_headers_other lower_names)

lemma serveStatic_refused:
  assumes loc: "locate P options req env = Inr ((path0, st0), evs0)"
      and neg: "negotiate P options req path0 st0 = ((headers, path, st), evs1)"
      and m: "req_method req \<noteq> ''HEAD''" "req_method req \<noteq> ''OPTIONS''"
      and r: "headers_get (req_headers req) ''range'' = Some r" "r \<noteq> []"
      and pr: "parse_range r (st_size st) = (start, end')"
      and no: "\<not> createReadStream_accepts start end'"
  shows "serveStatic P options req env
           = (Inl RangeError, evs0 @ evs1 @ [CreateReadStream path (Some (start, end'))])"
  unfolding serveStatic_located [OF loc neg] respond_refused [OF m r pr no]
  by (simp add: after_def)

subsection \<open>Reading a Range header\<close>

lemma split_on_nonempty: "split_on d s \<noteq> []"
  by (induction s) (auto split: list.splits)

lemma split_on_append: "d \<notin> set a \<Longrightarrow> split_on d (a @ d # t) = a # split_on d t"
  by (induction a) (auto split: list.splits)

lemma split_on_no_sep: "d \<notin> set a \<Longrightarrow> split_on d a = [a]"
  by (induction a) (auto split: list.splits)


lemma remove_first_bytes_prefix: "remove_first ''bytes='' (''bytes='' @ s) = s"
  by simp

lemma digit_not_dash: "is_digit c \<Longrightarrow> c \<noteq> CHR ''-''"
  by (auto simp: is_digit_def)

lemma digit_not_space: "is_digit c \<Longrightarrow> \<not> is_space c"
  by (auto simp: is_digit_def is_space_def)

lemma digit_not_sign: "is_digit c \<Longrightarrow> c \<noteq> CHR ''-'' \<and> c \<noteq> CHR ''+''"
  by (auto simp: is_digit_def)

lemma parseInt_digits:
  assumes "ds \<noteq> []" and "list_all is_digit ds"
  shows "parseInt (Some ds) = Some (digits_val ds)"
proof -
  obtain c cs where ds: "ds = c # cs" using assms(1) by (cases ds) auto
  have c: "is_digit c" using assms(2) ds by simp
  have z: "takeWhile is_digit cs = cs" using assms(2) ds by (simp add: list_all_iff)
  show ?thesis
    using digit_not_sign [OF c] digit_not_space [OF c] c
    by (simp add: parseInt_def ds Let_def z)
qed

lemma digit_val_nonneg: "0 \<le> digit_val c"
  by (auto simp: digit_val_def split: if_splits)

lemma foldl_digits_nonneg:
  "0 \<le> acc \<Longrightarrow> 0 \<le> foldl (\<lambda>acc c. 10 * acc + digit_val c) acc ds"
  by (induction ds arbitrary: acc) (auto simp: digit_val_nonneg)

lemma digits_val_nonneg: "0 \<le> digits_val ds"
  by (simp add: digits_val_def foldl_digits_nonneg)

lemma parseInt_empty: "parseInt (Some []) = None"
  by (simp add: parseInt_def)

lemma range_parts_open:
  assumes "list_all is_digit ds"
  shows "range_parts (''bytes='' @ ds @ ''-'') = [ds, []]"
proof -
  have "CHR ''-'' \<notin> set ds"
    using assms digit_not_dash by (auto simp: list_all_iff)
  then have "split_on CHR ''-'' (ds @ ''-'') = [ds, []]"
    using split_on_append [of "CHR ''-''" ds "[]"] by simp
  then show ?thesis
    unfolding range_parts_def remove_first_bytes_prefix by simp
qed

text \<open>The two fields of \<open>bytes=<start>-<end>\<close>: the start is the number given; the end is
  the number given unless that number is 0.\<close>

lemma range_of_digits:
  assumes a: "a \<noteq> []" "list_all is_digit a" and b: "b \<noteq> []" "list_all is_digit b"
  shows "range_start (''bytes='' @ a @ ''-'' @ b) = digits_val a"
    and "range_end (''bytes='' @ a @ ''-'' @ b) fsize
           = (if digits_val b = 0 then fsize - 1 else digits_val b)"
proof -
  have na: "CHR ''-'' \<notin> set a" and nb: "CHR ''-'' \<notin> set b"
    using a(2) b(2) digit_not_dash by (auto simp: list_all_iff)
  have "split_on CHR ''-'' (a @ ''-'' @ b) = [a, b]"
    using split_on_append [OF na, of b] split_on_no_sep [OF nb] by simp
  then have p: "range_parts (''bytes='' @ a @ ''-'' @ b) = [a, b]"
    unfolding range_parts_def remove_first_bytes_prefix by simp
  show "range_start (''bytes='' @ a @ ''-'' @ b) = digits_val a"
    unfolding range_start_def p
    by (simp add: at_index_def parseInt_digits [OF a] or_default_def)
  show "range_end (''bytes='' @ a @ ''-'' @ b) fsize
          = (if digits_val b = 0 then fsize - 1 else digits_val b)"
    unfolding range_end_def p
    by (simp add: at_index_def parseInt_digits [OF b] or_default_def)
qed












text \<open>The fields of a range hold no hyphen, so the start is never negative.\<close>

lemma split_on_parts: "x \<in> set (split_on d s) \<Longrightarrow> d \<notin> set x"
proof (induction s arbitrary: x)
  case Nil
  then show ?case by simp
next
  case (Cons c cs)
  show ?case
  proof (cases "c = d")
    case True
    then show ?thesis using Cons by auto
  next
    case False
    obtain p ps where sp: "split_on d cs = p # ps"
      using split_on_nonempty [of d cs] by (cases "split_on d cs") auto
    then have "x = c # p \<or> x \<in> set ps" using Cons.prems False by simp
    then show ?thesis using Cons.IH [of p] Cons.IH [of x] sp False by auto
  qed
qed

lemma parseInt_unsigned:
  assumes "CHR ''-'' \<notin> set x" and "parseInt (Some x) = Some n"
  shows "0 \<le> n"
proof -
  have "dropWhile is_space x = [] \<or> hd (dropWhile is_space x) \<noteq> CHR ''-''"
    using assms(1) by (metis hd_in_set set_dropWhileD)
  then show ?thesis
    using assms(2) digits_val_nonneg
    by (auto simp: parseInt_def Let_def split: if_splits)
qed

lemma range_start_nonneg: "0 \<le> range_start r"
proof (cases "parseInt (at_index (range_parts r) 0)")
  case None
  then show ?thesis by (simp add: range_start_def or_default_def)
next
  case (Some n)
  then obtain x where x: "at_index (range_parts r) 0 = Some x"
    by (cases "at_index (range_parts r) 0") (auto simp: parseInt_def)
  then have "x \<in> set (range_parts r)"
    by (auto simp: at_index_def split: if_splits)
  then have "x \<in> set (split_on CHR ''-'' (remove_first ''bytes='' r))"
    unfolding range_parts_def by (rule in_set_takeD)
  then have "CHR ''-'' \<notin> set x" by (rule split_on_parts)
  then have "0 \<le> n" using Some x parseInt_unsigned by simp
  then show ?thesis using Some by (simp add: range_start_def or_default_def)
qed

text \<open>The two ways \<open>respond\<close> ends: with a response, which keeps the headers it does not
  set itself, or with the RangeError of a range that \<open>createReadStream\<close> refuses.\<close>

lemma respond_shape:
  "(\<exists>resp evs. respond P req h p s = (Inr resp, evs)
      \<and> (status resp = 200 \<or> status resp = 206)
      \<and> (resp_body resp = NoBody \<or> (\<exists>rg. resp_body resp = StreamBody p rg))
      \<and> set evs \<subseteq> range (CreateReadStream p)
      \<and> (\<forall>n. lower n \<notin> {''content-range'', ''content-length'', ''date'', ''accept-ranges''}
             \<longrightarrow> headers_get (resp_headers resp) n = headers_get h n))
   \<or> (\<exists>r start end'. respond P req h p s
                          = (Inl RangeError, [CreateReadStream p (Some (start, end'))])
          \<and> req_method req \<noteq> ''HEAD'' \<and> req_method req \<noteq> ''OPTIONS''
          \<and> headers_get (req_headers req) ''range'' = Some r \<and> r \<noteq> []
          \<and> parse_range r (st_size s) = (start, end')
          \<and> \<not> createReadStream_accepts start end')"
proof (cases "req_method req = ''HEAD'' \<or> req_method req = ''OPTIONS''")
  case True
  show ?thesis
    unfolding respond_head [OF True]
    by (simp add: headers_get_set_other lower_names)
next
  case False
  then have m: "req_method req \<noteq> ''HEAD''" "req_method req \<noteq> ''OPTIONS''" by auto
  show ?thesis
  proof (cases "headers_get (req_headers req) ''range''")
    case None
    show ?thesis
      unfolding respond_full [OF m None]
      by (simp add: headers_get_set_other lower_names)
  next
    case (Some r)
    show ?thesis
    proof (cases "r = []")
      case True
      then show ?thesis using m Some
        by (simp add: respond_def headers_get_set_other lower_names)
    next
      case False
      obtain start end' where pr: "parse_range r (st_size s) = (start, end')"
        by (cases "parse_range r (st_size s)")
      show ?thesis
      proof (cases "createReadStream_accepts start end'")
        case True
        show ?thesis
          unfolding respond_range [OF m Some False pr True]
          by (simp add: range_headers_other)
      next
        case no: False
        show ?thesis
          unfolding respond_refused [OF m Some False pr no]
          using m Some False pr no by simp
      qed
    qed
  qed
qed

lemma probe_encodings_shape:
  "probe_encodings P A tbl h path st = ((h', p', st'), evs) \<Longrightarrow>
   (p' = path \<or> p' \<in> (\<lambda>suf. path @ suf) ` snd ` set tbl)
   \<and> set evs \<subseteq> (\<lambda>suf. Lstat (path @ suf)) ` snd ` set tbl"
proof (induction tbl arbitrary: evs)
  case Nil
  then show ?case by auto
next
  case (Cons a tbl)
  obtain enc suf where a: "a = (enc, suf)" by (cases a)
  show ?case
  proof (cases "enc \<in> A")
    case False
    then show ?thesis using Cons a by auto
  next
    case True
    show ?thesis
    proof (cases "getStats P (path @ suf)")
      case (Some pst)
      then show ?thesis using Cons.prems True a by auto
    next
      case None
      obtain t' evs' where r: "probe_encodings P A tbl h path st = (t', evs')"
        by (cases "probe_encodings P A tbl h path st")
      then have e: "t' = (h', p', st')" "evs = Lstat (path @ suf) # evs'"
        using Cons.prems(1) None True a by simp_all
      show ?thesis using Cons.IH [of evs'] r e a by auto
    qed
  qed
qed

lemma negotiate_shape:
  assumes "negotiate P options req path st = ((h, p', st'), evs)"
  shows "(p' = path \<or> p' \<in> (\<lambda>suf. path @ suf) ` snd ` set ENCODINGS)
         \<and> set evs \<subseteq> (\<lambda>suf. Lstat (path @ suf)) ` snd ` set ENCODINGS"
proof (cases "negotiable options (getMimeType P path)")
  case True
  then show ?thesis
    using assms probe_encodings_shape [of P "acceptEncodingSet req" ENCODINGS _ path st h p' st' evs]
    by (simp add: negotiate_def Let_def)
next
  case False
  then show ?thesis using assms by (simp add: negotiate_def Let_def)
qed

lemma probe_encodings_first:
  assumes "find (\<lambda>(enc, suf). enc \<in> A \<and> lstatSync P (path @ suf) \<noteq> None) tbl
             = Some (encoding, suffix)"
      and "lstatSync P (path @ suffix) = Some pst"
  shows "probe_encodings P A tbl h path st
           = ((headers_append ''Vary'' ''Accept-Encoding''
                 (headers_set ''Content-Encoding'' encoding h), path @ suffix, pst),
              map (\<lambda>(enc, suf). Lstat (path @ suf))
                (filter (\<lambda>(enc, suf). enc \<in> A)
                   (takeWhile (\<lambda>x. x \<noteq> (encoding, suffix)) tbl))
              @ [Lstat (path @ suffix)])"
  using assms
proof (induction tbl)
  case Nil
  then show ?case by simp
next
  case (Cons a tbl)
  obtain enc suf where a: "a = (enc, suf)" by (cases a)
  show ?case
  proof (cases "enc \<in> A \<and> lstatSync P (path @ suf) \<noteq> None")
    case True
    then have "(enc, suf) = (encoding, suffix)" using Cons.prems(1) a by auto
    then show ?thesis using True Cons.prems(2) a by (simp add: getStats_def)
  next
    case False
    then have f: "find (\<lambda>(enc, suf). enc \<in> A \<and> lstatSync P (path @ suf) \<noteq> None) tbl
                    = Some (encoding, suffix)"
      using Cons.prems(1) a by (auto split: if_splits)
    have sat: "encoding \<in> A \<and> lstatSync P (path @ suffix) \<noteq> None"
      using f by (auto simp: find_Some_iff)
    then have ne: "(enc, suf) \<noteq> (encoding, suffix)" using False by auto
    show ?thesis
      using Cons.IH [OF f Cons.prems(2)] False ne a
      by (auto simp: getStats_def)
  qed
qed

subsection \<open>The traversal test and the segments of a path\<close>

lemma path_segments_nonempty: "path_segments s \<noteq> []"
  by (induction s) (auto split: list.splits)

lemma path_segments_Cons:
  "path_segments (c # cs) =
     (if is_sep c then [] # path_segments cs
      else (c # hd (path_segments cs)) # tl (path_segments cs))"
  using path_segments_nonempty [of cs] by (auto split: list.splits)

lemma hd_path_segments: "hd (path_segments s) = takeWhile (\<lambda>c. \<not> is_sep c) s"
proof (induction s)
  case Nil
  show ?case by simp
next
  case (Cons c cs)
  then show ?case by (simp only: path_segments_Cons) simp
qed

lemma takeWhile_dotdot: "(takeWhile (\<lambda>c. \<not> is_sep c) s = ''..'') = dotdot_here s"
proof (cases s)
  case Nil
  then show ?thesis by simp
next
  case (Cons a s1)
  note s = Cons
  show ?thesis
  proof (cases s1)
    case Nil
    then show ?thesis using s by (auto simp: is_sep_def)
  next
    case (Cons b s2)
    then show ?thesis using s by (cases s2) (auto simp: is_sep_def)
  qed
qed

lemma hd_path_segments_dotdot: "(hd (path_segments s) = ''..'') = dotdot_here s"
  by (simp only: hd_path_segments takeWhile_dotdot)

lemma tl_path_segments_dotdot:
  "(''..'' \<in> set (tl (path_segments s))) = dotdot_after_sep s"
proof (induction s)
  case Nil
  then show ?case by simp
next
  case (Cons c cs)
  have m: "''..'' \<in> set (path_segments cs)
             \<longleftrightarrow> hd (path_segments cs) = ''..'' \<or> ''..'' \<in> set (tl (path_segments cs))"
    using path_segments_nonempty [of cs] by (cases "path_segments cs") auto
  have "''..'' \<in> set (tl (path_segments (c # cs)))
          \<longleftrightarrow> (if is_sep c then ''..'' \<in> set (path_segments cs)
               else ''..'' \<in> set (tl (path_segments cs)))"
    by (simp only: path_segments_Cons) simp
  then show ?case
    using Cons.IH m hd_path_segments_dotdot [of cs] by auto
qed

lemma traversal_test_spec: "traversal_test s = spec_traversal_segment s"
proof -
  have "''..'' \<in> set (path_segments s)
          \<longleftrightarrow> hd (path_segments s) = ''..'' \<or> ''..'' \<in> set (tl (path_segments s))"
    using path_segments_nonempty [of s] by (cases "path_segments s") auto
  then show ?thesis
    by (simp add: traversal_test_def spec_traversal_segment_def
          hd_path_segments_dotdot tl_path_segments_dotdot)
qed

subsection \<open>Path resolution\<close>

text \<open>
  Claim C1, as the source has it. Where no fixed path is configured, a request whose
  path fails to decode, or decodes to a path with a segment \<open>..\<close> (whether or not the
  dots or the separators were escaped in the raw path), is answered by the not-found
  collaborator, and the call of the collaborator is all the handler does: no entry is
  stat'ed and no file is opened. With a fixed path the handler does not look at the path
  of the request at all.
\<close>

theorem C1_traversal_gate:
  assumes np: "\<not> truthy_str (opt_path options)"
      and bad: "decodeURIComponent P (req_pathname req) = None
                \<or> (\<exists>filename. decodeURIComponent P (req_pathname req) = Some filename
                      \<and> spec_traversal_segment filename)"
  shows "serveStatic P options req env
           = ((case opt_onNotFound options of
                 None \<Rightarrow> Inr default_onNotFound
               | Some h \<Rightarrow> h req env),
              [NotFoundCalled])"
proof -
  have "requested_filename P options req = None"
    using np bad by (auto simp: requested_filename_def traversal_test_spec)
  then show ?thesis
    by (simp add: serveStatic_def locate_def onNotFound_def)
qed

text \<open>A path whose separator is escaped, and a path that does not decode.\<close>

theorem C1_traversal_gate_witness:
  "decodeURIComponent (example_platform example_entries) ''/..%2Fsecret'' = Some ''/../secret''
   \<and> spec_traversal_segment ''/../secret''
   \<and> decodeURIComponent (example_platform example_entries) ''/%zz'' = None
   \<and> serveStatic (example_platform example_entries) example_options
        (get_request ''/..%2Fsecret'' []) () = (Inr default_onNotFound, [NotFoundCalled])
   \<and> serveStatic (example_platform example_entries) example_options
        (get_request ''/%zz'' []) () = (Inr default_onNotFound, [NotFoundCalled])"
proof -
  let ?P = "example_platform example_entries"
  have np: "\<not> truthy_str (opt_path example_options)"
    by code_simp
  have d1: "decodeURIComponent ?P ''/..%2Fsecret'' = Some ''/../secret''"
    by code_simp
  have t1: "spec_traversal_segment ''/../secret''"
    by code_simp
  have d2: "decodeURIComponent ?P ''/%zz'' = None"
    by code_simp
  have b1: "decodeURIComponent ?P (req_pathname (get_request ''/..%2Fsecret'' [])) = None
            \<or> (\<exists>filename. decodeURIComponent ?P (req_pathname (get_request ''/..%2Fsecret'' []))
                   = Some filename \<and> spec_traversal_segment filename)"
    using d1 t1 by (simp add: get_request_def)
  have b2: "decodeURIComponent ?P (req_pathname (get_request ''/%zz'' [])) = None
            \<or> (\<exists>filename. decodeURIComponent ?P (req_pathname (get_request ''/%zz'' []))
                   = Some filename \<and> spec_traversal_segment filename)"
    using d2 by (simp add: get_request_def)
  have o: "opt_onNotFound example_options = None"
    by (simp add: example_options_def)
  show ?thesis
    using C1_traversal_gate [OF np b1, of "()"] C1_traversal_gate [OF np b2, of "()"] d1 t1 d2
    by (simp add: o)
qed

text \<open>Claim C1 as it is stated fails where \<open>options.path\<close> is set: the decoded path of the
  request has a segment \<open>..\<close>, and the handler serves the configured file without
  calling the not-found collaborator.\<close>

theorem C1_fixed_path_counterexample:
  "decodeURIComponent (example_platform example_entries) ''/..%2Fsecret'' = Some ''/../secret''
   \<and> spec_traversal_segment ''/../secret''
   \<and> serveStatic (example_platform example_entries)
        (example_options\<lparr>opt_path := Some ''file.txt''\<rparr>)
        (get_request ''/..%2Fsecret'' []) ()
       = (Inr \<lparr>status = 200,
                resp_headers = [(''content-type'', ''text/plain''), (''content-length'', ''500'')],
                resp_body = StreamBody ''public/file.txt'' None\<rparr>,
          [Lstat ''public/file.txt'', CreateReadStream ''public/file.txt'' None])"
  by code_simp

text \<open>
  Claim C2 says that the handler never throws, also where \<open>rewriteRequestPath\<close> is
  configured. The source throws there: with the option set, no fixed path and a path
  that passes the traversal test, evaluating the undeclared identifier \<open>c\<close> raises a
  ReferenceError, which the handler does not catch.
\<close>

theorem C2_rewrite_throws:
  assumes "\<not> truthy_str (opt_path options)"
      and "opt_rewriteRequestPath options = Some rewrite"
      and "decodeURIComponent P (req_pathname req) = Some filename"
      and "\<not> traversal_test filename"
  shows "serveStatic P options req env = (Inl (ReferenceError ''c''), [])"
  using assms by (simp add: serveStatic_def locate_def requested_filename_def)

text \<open>A request for an existing file, with the identity as the rewrite function.\<close>

theorem C2_rewrite_throws_witness:
  "lstatSync (example_platform example_entries) ''public/file.txt'' = Some (file_of_size 500)
   \<and> serveStatic (example_platform example_entries)
        (example_options\<lparr>opt_rewriteRequestPath := Some (\<lambda>p. p)\<rparr>)
        (get_request ''/file.txt'' []) ()
       = (Inl (ReferenceError ''c''), [])"
proof -
  let ?P = "example_platform example_entries"
  let ?opts = "example_options\<lparr>opt_rewriteRequestPath := Some (\<lambda>p. p)\<rparr>"
  have np: "\<not> truthy_str (opt_path ?opts)"
    by (simp add: example_options_def truthy_str_def)
  have rw: "opt_rewriteRequestPath ?opts = Some (\<lambda>p. p)"
    by simp
  have d: "decodeURIComponent ?P (req_pathname (get_request ''/file.txt'' [])) = Some ''/file.txt''"
    by code_simp
  have t: "\<not> traversal_test ''/file.txt''"
    by code_simp
  have f: "lstatSync ?P ''public/file.txt'' = Some (file_of_size 500)"
    by code_simp
  from C2_rewrite_throws [OF np rw d t, of "()"] f show ?thesis
    by simp
qed

text \<open>The other results of the handler that are not responses come from a not-found
  collaborator that throws, and from a range that \<open>createReadStream\<close> refuses.\<close>

lemma serveStatic_throws_only:
  assumes "fst (serveStatic P options req env) = Inl e"
  shows "(\<not> truthy_str (opt_path options) \<and> opt_rewriteRequestPath options \<noteq> None)
         \<or> (\<exists>h. opt_onNotFound options = Some h \<and> h req env = Inl e)
         \<or> (e = RangeError \<and> req_method req \<noteq> ''HEAD'' \<and> req_method req \<noteq> ''OPTIONS''
              \<and> (\<exists>r. headers_get (req_headers req) ''range'' = Some r \<and> r \<noteq> []))"
proof (cases "locate P options req env")
  case (Inl r)
  then show ?thesis
    using assms
    by (auto simp: serveStatic_def locate_def Let_def onNotFound_def after_def
             split: option.splits if_splits prod.splits)
next
  case (Inr t)
  obtain path st evs where t: "t = ((path, st), evs)" by (cases t) auto
  obtain h p' st' evs' where n: "negotiate P options req path st = ((h, p', st'), evs')"
    by (cases "negotiate P options req path st") auto
  have s: "fst (serveStatic P options req env) = fst (respond P req h p' st')"
    using Inr t n by (simp add: serveStatic_def after_def)
  show ?thesis
    using respond_shape [of P req h p' st'] assms s by auto
qed

subsection \<open>Directories\<close>

text \<open>
  Claim C3, as the source has it. For a request that resolves to a directory, the
  handler joins the index file name to the path and stats the result, once. If that
  fails, the not-found collaborator is called and its result is the result. If it
  succeeds, the index path with its stats is the entry the handler goes on with,
  whatever kind of entry it is, a directory too: the handler goes on to the choice of a
  precompressed variant and the assembly of the response for that entry, the not-found
  collaborator is not called, and there is no other index lookup, the only further
  stats being those of the precompressed variants of the index path.
\<close>

theorem C3_index_once:
  assumes fn: "requested_filename P options req = Some filename"
      and rw: "truthy_str (opt_path options) \<or> opt_rewriteRequestPath options = None"
      and p: "path = path_join P (case opt_root options of None \<Rightarrow> [] | Some r \<Rightarrow> r) filename"
      and d: "lstatSync P path = Some st" "isDirectory st"
      and i: "ipath = path_join P path
                        (case opt_index options of None \<Rightarrow> ''index.html'' | Some i \<Rightarrow> i)"
  shows "(lstatSync P ipath = None \<longrightarrow>
            serveStatic P options req env
              = (fst (onNotFound options req env), [Lstat path, Lstat ipath, NotFoundCalled]))
         \<and> (\<forall>ist. lstatSync P ipath = Some ist \<longrightarrow>
               locate P options req env = Inr ((ipath, ist), [Lstat path, Lstat ipath])
               \<and> (\<exists>headers fpath fstats evs1.
                     negotiate P options req ipath ist = ((headers, fpath, fstats), evs1)
                     \<and> serveStatic P options req env
                         = after (Lstat path # Lstat ipath # evs1)
                             (respond P req headers fpath fstats))
               \<and> NotFoundCalled \<notin> set (snd (serveStatic P options req env))
               \<and> (\<forall>q. Lstat q \<in> set (snd (serveStatic P options req env)) \<longrightarrow>
                      q = path \<or> q = ipath
                      \<or> q \<in> (\<lambda>suf. ipath @ suf) ` snd ` set ENCODINGS))"
proof -
  have step: "index_step P options path (Some st) = ((ipath, lstatSync P ipath), [Lstat ipath])"
    using d(2) by (simp add: index_step_def Let_def getStats_def i)
  have loc: "locate P options req env
               = (case lstatSync P ipath of
                    None \<Rightarrow> Inl (after [Lstat path, Lstat ipath] (onNotFound options req env))
                  | Some ist \<Rightarrow> Inr ((ipath, ist), [Lstat path, Lstat ipath]))"
    unfolding locate_def Let_def fn option.case p [symmetric] getStats_def d(1) step
    using rw by (auto split: option.splits)
  have missing: "serveStatic P options req env
                   = (fst (onNotFound options req env), [Lstat path, Lstat ipath, NotFoundCalled])"
    if n: "lstatSync P ipath = None"
    unfolding serveStatic_def loc n by (simp add: after_def onNotFound_def)
  have found: "locate P options req env = Inr ((ipath, ist), [Lstat path, Lstat ipath])
               \<and> (\<exists>headers fpath fstats evs1.
                     negotiate P options req ipath ist = ((headers, fpath, fstats), evs1)
                     \<and> serveStatic P options req env
                         = after (Lstat path # Lstat ipath # evs1)
                             (respond P req headers fpath fstats))
               \<and> NotFoundCalled \<notin> set (snd (serveStatic P options req env))
               \<and> (\<forall>q. Lstat q \<in> set (snd (serveStatic P options req env)) \<longrightarrow>
                      q = path \<or> q = ipath
                      \<or> q \<in> (\<lambda>suf. ipath @ suf) ` snd ` set ENCODINGS)"
    if s: "lstatSync P ipath = Some ist" for ist
  proof -
    have l: "locate P options req env = Inr ((ipath, ist), [Lstat path, Lstat ipath])"
      unfolding loc s by simp
    obtain h p' st' evs1 where neg: "negotiate P options req ipath ist = ((h, p', st'), evs1)"
      by (cases "negotiate P options req ipath ist") auto
    have a: "serveStatic P options req env
               = after (Lstat path # Lstat ipath # evs1) (respond P req h p' st')"
      using serveStatic_located [OF l neg] by simp
    have e1: "set evs1 \<subseteq> (\<lambda>suf. Lstat (ipath @ suf)) ` snd ` set ENCODINGS"
      using negotiate_shape [OF neg] by simp
    have e2: "set (snd (respond P req h p' st')) \<subseteq> range (CreateReadStream p')"
      using respond_shape [of P req h p' st'] by auto
    have ev: "snd (serveStatic P options req env)
                = Lstat path # Lstat ipath # evs1 @ snd (respond P req h p' st')"
      unfolding a by (simp add: after_def)
    have b: "NotFoundCalled \<notin> set (snd (serveStatic P options req env))"
      unfolding ev using e1 e2 by auto
    have c: "q = path \<or> q = ipath \<or> q \<in> (\<lambda>suf. ipath @ suf) ` snd ` set ENCODINGS"
      if "Lstat q \<in> set (snd (serveStatic P options req env))" for q
    proof -
      have "Lstat q = Lstat path \<or> Lstat q = Lstat ipath \<or> Lstat q \<in> set evs1"
        using that e2 unfolding ev by auto
      then show ?thesis using e1 by auto
    qed
    show ?thesis
      using l neg a b c by blast
  qed
  show ?thesis using missing found by blast
qed

text \<open>A directory without an index file, and one with an index file.\<close>

theorem C3_index_once_witness:
  "serveStatic (example_platform example_entries) example_options (get_request ''/empty'' []) ()
     = (Inr default_onNotFound,
        [Lstat ''public/empty'', Lstat ''public/empty/index.html'', NotFoundCalled])
   \<and> locate (example_platform example_entries) example_options (get_request ''/docs'' []) ()
       = Inr ((''public/docs/index.html'', file_of_size 42),
              [Lstat ''public/docs'', Lstat ''public/docs/index.html''])
   \<and> NotFoundCalled \<notin> set (snd (serveStatic (example_platform example_entries) example_options
                                     (get_request ''/docs'' []) ()))
   \<and> serveStatic (example_platform example_entries) example_options (get_request ''/docs'' []) ()
       = (Inr \<lparr>status = 200,
                resp_headers = [(''content-type'', ''text/html''), (''content-length'', ''42'')],
                resp_body = StreamBody ''public/docs/index.html'' None\<rparr>,
          [Lstat ''public/docs'', Lstat ''public/docs/index.html'',
           CreateReadStream ''public/docs/index.html'' None])"
proof -
  let ?P = "example_platform example_entries"
  have rw: "truthy_str (opt_path example_options) \<or> opt_rewriteRequestPath example_options = None"
    by (simp add: example_options_def)
  have fn1: "requested_filename ?P example_options (get_request ''/empty'' []) = Some ''/empty''"
    by code_simp
  have p1: "''public/empty''
              = path_join ?P (case opt_root example_options of None \<Rightarrow> [] | Some r \<Rightarrow> r) ''/empty''"
    by code_simp
  have d1: "lstatSync ?P ''public/empty'' = Some directory" "isDirectory directory"
    by code_simp+
  have i1: "''public/empty/index.html''
              = path_join ?P ''public/empty''
                  (case opt_index example_options of None \<Rightarrow> ''index.html'' | Some i \<Rightarrow> i)"
    by code_simp
  have n1: "lstatSync ?P ''public/empty/index.html'' = None"
    by code_simp
  have fn2: "requested_filename ?P example_options (get_request ''/docs'' []) = Some ''/docs''"
    by code_simp
  have p2: "''public/docs''
              = path_join ?P (case opt_root example_options of None \<Rightarrow> [] | Some r \<Rightarrow> r) ''/docs''"
    by code_simp
  have d2: "lstatSync ?P ''public/docs'' = Some directory"
    by code_simp
  have i2: "''public/docs/index.html''
              = path_join ?P ''public/docs''
                  (case opt_index example_options of None \<Rightarrow> ''index.html'' | Some i \<Rightarrow> i)"
    by code_simp
  have s2: "lstatSync ?P ''public/docs/index.html'' = Some (file_of_size 42)"
    by code_simp
  have nf: "fst (onNotFound example_options (get_request ''/empty'' []) ()) = Inr default_onNotFound"
    by (simp add: onNotFound_def example_options_def)
  have v: "serveStatic ?P example_options (get_request ''/docs'' []) ()
       = (Inr \<lparr>status = 200,
                resp_headers = [(''content-type'', ''text/html''), (''content-length'', ''42'')],
                resp_body = StreamBody ''public/docs/index.html'' None\<rparr>,
          [Lstat ''public/docs'', Lstat ''public/docs/index.html'',
           CreateReadStream ''public/docs/index.html'' None])"
    by code_simp
  show ?thesis
    using C3_index_once [OF fn1 rw p1 d1 i1, of "()"] C3_index_once [OF fn2 rw p2 d2 d1(2) i2, of "()"]
          n1 s2 nf v
    by auto
qed

text \<open>Claim C3 as it is stated fails where the index path is a directory: the handler
  does not return not-found, it answers 200 with the size of the directory entry.\<close>

theorem C3_index_directory_counterexample:
  "map_option isDirectory (lstatSync (example_platform example_entries) ''public/nested'')
     = Some True
   \<and> map_option isDirectory
        (lstatSync (example_platform example_entries) ''public/nested/index.html'') = Some True
   \<and> serveStatic (example_platform example_entries) example_options
        (get_request ''/nested'' []) ()
       = (Inr \<lparr>status = 200,
                resp_headers = [(''content-type'', ''text/html''), (''content-length'', ''4096'')],
                resp_body = StreamBody ''public/nested/index.html'' None\<rparr>,
          [Lstat ''public/nested'', Lstat ''public/nested/index.html'',
           CreateReadStream ''public/nested/index.html'' None])"
  by code_simp

subsection \<open>Precompressed variants\<close>

text \<open>
  Claim C6. Where precompression is on and the content type is absent or compressible,
  the variant is the one of the first entry of the table \<open>br\<close>, \<open>zstd\<close>, \<open>gzip\<close> whose
  encoding is one of the trimmed tokens of the header \<open>Accept-Encoding\<close> and whose
  file \<open>path + suffix\<close> exists, whatever the order of the tokens in the header. That
  file and its stats take the place of the target, \<open>Content-Encoding\<close> is its encoding,
  \<open>Accept-Encoding\<close> is added to \<open>Vary\<close>, and the files of later entries are not looked
  at: the stats made are those of the accepted entries up to the chosen one. The
  response assembled from there carries both headers and has the variant as its body;
  the handler ends without a response only where \<open>createReadStream\<close> refuses the range
  of the request.
\<close>

theorem C6_table_order:
  assumes loc: "locate P options req env = Inr ((path, st), evs0)"
      and on: "truthy_bool (opt_precompressed options)"
      and ct: "getMimeType P path = None \<or> getMimeType P path = Some []
               \<or> (\<exists>mimeType. getMimeType P path = Some mimeType
                      \<and> COMPRESSIBLE_CONTENT_TYPE_REGEX_test mimeType)"
      and ae: "headers_get (req_headers req) ''Accept-Encoding'' = Some v"
      and acc: "accepted = set (map trim (split_on CHR '','' v))"
      and first: "find (\<lambda>(enc, suf). enc \<in> accepted \<and> lstatSync P (path @ suf) \<noteq> None)
                    [(''br'', ''.br''), (''zstd'', ''.zst''), (''gzip'', ''.gz'')]
                    = Some (encoding, suffix)"
      and pst: "lstatSync P (path @ suffix) = Some precompressedStats"
      and evs1: "evs1 = map (\<lambda>(enc, suf). Lstat (path @ suf))
                          (filter (\<lambda>(enc, suf). enc \<in> accepted)
                             (takeWhile (\<lambda>x. x \<noteq> (encoding, suffix))
                                [(''br'', ''.br''), (''zstd'', ''.zst''), (''gzip'', ''.gz'')]))
                        @ [Lstat (path @ suffix)]"
  shows "\<exists>headers.
           negotiate P options req path st = ((headers, path @ suffix, precompressedStats), evs1)
           \<and> headers_get headers ''Content-Encoding'' = Some encoding
           \<and> headers_get headers ''Vary'' = Some ''Accept-Encoding''
           \<and> serveStatic P options req env
               = after (evs0 @ evs1) (respond P req headers (path @ suffix) precompressedStats)
           \<and> ((\<exists>resp evs. serveStatic P options req env = (Inr resp, evs)
                   \<and> headers_get (resp_headers resp) ''Content-Encoding'' = Some encoding
                   \<and> headers_get (resp_headers resp) ''Vary'' = Some ''Accept-Encoding''
                   \<and> (resp_body resp = NoBody
                        \<or> (\<exists>rg. resp_body resp = StreamBody (path @ suffix) rg)))
                \<or> (\<exists>r start end'.
                      fst (serveStatic P options req env) = Inl RangeError
                      \<and> req_method req \<noteq> ''HEAD'' \<and> req_method req \<noteq> ''OPTIONS''
                      \<and> headers_get (req_headers req) ''range'' = Some r \<and> r \<noteq> []
                      \<and> parse_range r (st_size precompressedStats) = (start, end')
                      \<and> \<not> createReadStream_accepts start end'))"
proof -
  define ctype where "ctype = (case getMimeType P path of
                           None \<Rightarrow> ''application/octet-stream''
                         | Some m \<Rightarrow> if m = [] then ''application/octet-stream'' else m)"
  define headers where
    "headers = headers_append ''Vary'' ''Accept-Encoding''
                 (headers_set ''Content-Encoding'' encoding (headers_set ''Content-Type'' ctype []))"
  have n: "negotiable options (getMimeType P path)"
    using on ct by (auto simp: negotiable_def truthy_str_def)
  have a: "acceptEncodingSet req = accepted"
    by (simp add: acceptEncodingSet_def ae acc)
  have first': "find (\<lambda>(enc, suf). enc \<in> accepted \<and> lstatSync P (path @ suf) \<noteq> None) ENCODINGS
                  = Some (encoding, suffix)"
    using first by (simp only: ENCODINGS_def)
  have neg: "negotiate P options req path st
               = ((headers, path @ suffix, precompressedStats), evs1)"
    using n probe_encodings_first [OF first' pst]
    by (simp add: negotiate_def Let_def ctype_def headers_def evs1 a ENCODINGS_def)
  have h: "headers = [(''content-type'', ctype), (''content-encoding'', encoding),
                      (''vary'', ''Accept-Encoding'')]"
    by (simp add: headers_def headers_append_def lower_def to_lower_def)
  have ce: "headers_get headers ''Content-Encoding'' = Some encoding"
    and va: "headers_get headers ''Vary'' = Some ''Accept-Encoding''"
    by (simp_all add: h headers_get_def lower_def to_lower_def)
  have s: "serveStatic P options req env
             = after (evs0 @ evs1) (respond P req headers (path @ suffix) precompressedStats)"
    by (rule serveStatic_located [OF loc neg])
  have k: "lower ''Content-Encoding'' \<notin> {''content-range'', ''content-length'', ''date'', ''accept-ranges''}"
          "lower ''Vary'' \<notin> {''content-range'', ''content-length'', ''date'', ''accept-ranges''}"
    by (simp_all add: lower_names)
  have "(\<exists>resp evs. serveStatic P options req env = (Inr resp, evs)
                   \<and> headers_get (resp_headers resp) ''Content-Encoding'' = Some encoding
                   \<and> headers_get (resp_headers resp) ''Vary'' = Some ''Accept-Encoding''
                   \<and> (resp_body resp = NoBody
                        \<or> (\<exists>rg. resp_body resp = StreamBody (path @ suffix) rg)))
                \<or> (\<exists>r start end'.
                      fst (serveStatic P options req env) = Inl RangeError
                      \<and> req_method req \<noteq> ''HEAD'' \<and> req_method req \<noteq> ''OPTIONS''
                      \<and> headers_get (req_headers req) ''range'' = Some r \<and> r \<noteq> []
                      \<and> parse_range r (st_size precompressedStats) = (start, end')
                      \<and> \<not> createReadStream_accepts start end')"
    using respond_shape [of P req headers "path @ suffix" precompressedStats] k ce va
    unfolding s by (fastforce simp: after_def)
  then show ?thesis
    using neg s ce va by blast
qed

text \<open>The example of the claim, \<open>Accept-Encoding: gzip, br\<close> with both files on disk; a
  request that does not accept \<open>br\<close>, for a file without a \<open>zstd\<close> variant; and two
  requests for a file that has all three variants. Of the content types, \<open>text/plain\<close> is
  compressible and \<open>image/png\<close> is not.\<close>

theorem C6_table_order_witness:
  "COMPRESSIBLE_CONTENT_TYPE_REGEX_test ''text/plain''
   \<and> \<not> COMPRESSIBLE_CONTENT_TYPE_REGEX_test ''image/png''
   \<and> serveStatic (example_platform example_entries)
        (example_options\<lparr>opt_precompressed := Some True\<rparr>)
        (get_request ''/file.txt'' [(''Accept-Encoding'', ''gzip, br'')]) ()
       = (Inr \<lparr>status = 200,
                resp_headers = [(''content-type'', ''text/plain''), (''content-encoding'', ''br''),
                                (''vary'', ''Accept-Encoding''), (''content-length'', ''120'')],
                resp_body = StreamBody ''public/file.txt.br'' None\<rparr>,
          [Lstat ''public/file.txt'', Lstat ''public/file.txt.br'',
           CreateReadStream ''public/file.txt.br'' None])
   \<and> serveStatic (example_platform example_entries)
        (example_options\<lparr>opt_precompressed := Some True\<rparr>)
        (get_request ''/file.txt'' [(''Accept-Encoding'', ''gzip, zstd'')]) ()
       = (Inr \<lparr>status = 200,
                resp_headers = [(''content-type'', ''text/plain''), (''content-encoding'', ''gzip''),
                                (''vary'', ''Accept-Encoding''), (''content-length'', ''150'')],
                resp_body = StreamBody ''public/file.txt.gz'' None\<rparr>,
          [Lstat ''public/file.txt'', Lstat ''public/file.txt.zst'', Lstat ''public/file.txt.gz'',
           CreateReadStream ''public/file.txt.gz'' None])
   \<and> serveStatic (example_platform example_entries)
        (example_options\<lparr>opt_precompressed := Some True\<rparr>)
        (get_request ''/app.js'' [(''Accept-Encoding'', ''gzip, zstd'')]) ()
       = (Inr \<lparr>status = 200,
                resp_headers = [(''content-type'', ''text/javascript''),
                                (''content-encoding'', ''zstd''),
                                (''vary'', ''Accept-Encoding''), (''content-length'', ''320'')],
                resp_body = StreamBody ''public/app.js.zst'' None\<rparr>,
          [Lstat ''public/app.js'', Lstat ''public/app.js.zst'',
           CreateReadStream ''public/app.js.zst'' None])
   \<and> serveStatic (example_platform example_entries)
        (example_options\<lparr>opt_precompressed := Some True\<rparr>)
        (get_request ''/app.js'' [(''Accept-Encoding'', ''zstd, br'')]) ()
       = (Inr \<lparr>status = 200,
                resp_headers = [(''content-type'', ''text/javascript''),
                                (''content-encoding'', ''br''),
                                (''vary'', ''Accept-Encoding''), (''content-length'', ''300'')],
                resp_body = StreamBody ''public/app.js.br'' None\<rparr>,
          [Lstat ''public/app.js'', Lstat ''public/app.js.br'',
           CreateReadStream ''public/app.js.br'' None])"
proof -
  let ?P = "example_platform example_entries"
  let ?opts = "example_options\<lparr>opt_precompressed := Some True\<rparr>"
  let ?D = "get_request ''/app.js'' [(''Accept-Encoding'', ''zstd, br'')]"
  let ?tbl = "[(''br'', ''.br''), (''zstd'', ''.zst''), (''gzip'', ''.gz'')]"
  let ?A = "get_request ''/file.txt'' [(''Accept-Encoding'', ''gzip, br'')]"
  let ?B = "get_request ''/file.txt'' [(''Accept-Encoding'', ''gzip, zstd'')]"
  let ?C = "get_request ''/app.js'' [(''Accept-Encoding'', ''gzip, zstd'')]"
  have rx: "COMPRESSIBLE_CONTENT_TYPE_REGEX_test ''text/plain''"
           "\<not> COMPRESSIBLE_CONTENT_TYPE_REGEX_test ''image/png''"
    by code_simp+
  have on: "truthy_bool (opt_precompressed ?opts)"
    by code_simp
  have ct: "getMimeType ?P ''public/file.txt'' = None \<or> getMimeType ?P ''public/file.txt'' = Some []
             \<or> (\<exists>mimeType. getMimeType ?P ''public/file.txt'' = Some mimeType
                    \<and> COMPRESSIBLE_CONTENT_TYPE_REGEX_test mimeType)"
  proof -
    have "getMimeType ?P ''public/file.txt'' = Some ''text/plain''" by code_simp
    then show ?thesis using rx(1) by simp
  qed
  have ctC: "getMimeType ?P ''public/app.js'' = None \<or> getMimeType ?P ''public/app.js'' = Some []
             \<or> (\<exists>mimeType. getMimeType ?P ''public/app.js'' = Some mimeType
                    \<and> COMPRESSIBLE_CONTENT_TYPE_REGEX_test mimeType)"
  proof -
    have "getMimeType ?P ''public/app.js'' = Some ''text/javascript''" by code_simp
    moreover have "COMPRESSIBLE_CONTENT_TYPE_REGEX_test ''text/javascript''" by code_simp
    ultimately show ?thesis by simp
  qed
  have locA: "locate ?P ?opts ?A ()
               = Inr ((''public/file.txt'', file_of_size 500), [Lstat ''public/file.txt''])"
    and locB: "locate ?P ?opts ?B ()
               = Inr ((''public/file.txt'', file_of_size 500), [Lstat ''public/file.txt''])"
    and locC: "locate ?P ?opts ?C ()
               = Inr ((''public/app.js'', file_of_size 900), [Lstat ''public/app.js''])"
    and locD: "locate ?P ?opts ?D ()
               = Inr ((''public/app.js'', file_of_size 900), [Lstat ''public/app.js''])"
    by code_simp+
  have aeA: "headers_get (req_headers ?A) ''Accept-Encoding'' = Some ''gzip, br''"
    and aeB: "headers_get (req_headers ?B) ''Accept-Encoding'' = Some ''gzip, zstd''"
    and aeC: "headers_get (req_headers ?C) ''Accept-Encoding'' = Some ''gzip, zstd''"
    and aeD: "headers_get (req_headers ?D) ''Accept-Encoding'' = Some ''zstd, br''"
    by code_simp+
  have accA: "{''gzip'', ''br''} = set (map trim (split_on CHR '','' ''gzip, br''))"
    and accB: "{''gzip'', ''zstd''} = set (map trim (split_on CHR '','' ''gzip, zstd''))"
    and accD: "{''zstd'', ''br''} = set (map trim (split_on CHR '','' ''zstd, br''))"
    by code_simp+
  have firstA: "find (\<lambda>(enc, suf). enc \<in> {''gzip'', ''br''}
                        \<and> lstatSync ?P (''public/file.txt'' @ suf) \<noteq> None) ?tbl
                  = Some (''br'', ''.br'')"
    and firstB: "find (\<lambda>(enc, suf). enc \<in> {''gzip'', ''zstd''}
                        \<and> lstatSync ?P (''public/file.txt'' @ suf) \<noteq> None) ?tbl
                  = Some (''gzip'', ''.gz'')"
    and firstC: "find (\<lambda>(enc, suf). enc \<in> {''gzip'', ''zstd''}
                        \<and> lstatSync ?P (''public/app.js'' @ suf) \<noteq> None) ?tbl
                  = Some (''zstd'', ''.zst'')"
    and firstD: "find (\<lambda>(enc, suf). enc \<in> {''zstd'', ''br''}
                        \<and> lstatSync ?P (''public/app.js'' @ suf) \<noteq> None) ?tbl
                  = Some (''br'', ''.br'')"
    by code_simp+
  have pstA: "lstatSync ?P (''public/file.txt'' @ ''.br'') = Some (file_of_size 120)"
    and pstB: "lstatSync ?P (''public/file.txt'' @ ''.gz'') = Some (file_of_size 150)"
    and pstC: "lstatSync ?P (''public/app.js'' @ ''.zst'') = Some (file_of_size 320)"
    and pstD: "lstatSync ?P (''public/app.js'' @ ''.br'') = Some (file_of_size 300)"
    by code_simp+
  have evA: "[Lstat ''public/file.txt.br'']
               = map (\<lambda>(enc, suf). Lstat (''public/file.txt'' @ suf))
                   (filter (\<lambda>(enc, suf). enc \<in> {''gzip'', ''br''})
                      (takeWhile (\<lambda>x. x \<noteq> (''br'', ''.br'')) ?tbl))
                 @ [Lstat (''public/file.txt'' @ ''.br'')]"
    and evB: "[Lstat ''public/file.txt.zst'', Lstat ''public/file.txt.gz'']
               = map (\<lambda>(enc, suf). Lstat (''public/file.txt'' @ suf))
                   (filter (\<lambda>(enc, suf). enc \<in> {''gzip'', ''zstd''})
                      (takeWhile (\<lambda>x. x \<noteq> (''gzip'', ''.gz'')) ?tbl))
                 @ [Lstat (''public/file.txt'' @ ''.gz'')]"
    and evC: "[Lstat ''public/app.js.zst'']
               = map (\<lambda>(enc, suf). Lstat (''public/app.js'' @ suf))
                   (filter (\<lambda>(enc, suf). enc \<in> {''gzip'', ''zstd''})
                      (takeWhile (\<lambda>x. x \<noteq> (''zstd'', ''.zst'')) ?tbl))
                 @ [Lstat (''public/app.js'' @ ''.zst'')]"
    and evD: "[Lstat ''public/app.js.br'']
               = map (\<lambda>(enc, suf). Lstat (''public/app.js'' @ suf))
                   (filter (\<lambda>(enc, suf). enc \<in> {''zstd'', ''br''})
                      (takeWhile (\<lambda>x. x \<noteq> (''br'', ''.br'')) ?tbl))
                 @ [Lstat (''public/app.js'' @ ''.br'')]"
    by code_simp+
  have noR: "headers_get (req_headers ?A) ''range'' = None"
            "headers_get (req_headers ?B) ''range'' = None"
            "headers_get (req_headers ?C) ''range'' = None"
            "headers_get (req_headers ?D) ''range'' = None"
    by code_simp+
  have m: "req_method ?A \<noteq> ''HEAD''" "req_method ?A \<noteq> ''OPTIONS''"
          "req_method ?B \<noteq> ''HEAD''" "req_method ?B \<noteq> ''OPTIONS''"
          "req_method ?C \<noteq> ''HEAD''" "req_method ?C \<noteq> ''OPTIONS''"
          "req_method ?D \<noteq> ''HEAD''" "req_method ?D \<noteq> ''OPTIONS''"
    by (simp_all add: get_request_def)
  have ts: "toString (st_size (file_of_size 120)) = ''120''"
           "toString (st_size (file_of_size 150)) = ''150''"
           "toString (st_size (file_of_size 320)) = ''320''"
           "toString (st_size (file_of_size 300)) = ''300''"
    by code_simp+
  have lowers: "lower ''vary'' = ''vary''" "lower ''content-encoding'' = ''content-encoding''"
               "lower ''content-type'' = ''content-type''"
    by code_simp+
  obtain hA where nA: "negotiate ?P ?opts ?A ''public/file.txt'' (file_of_size 500)
                         = ((hA, ''public/file.txt'' @ ''.br'', file_of_size 120),
                            [Lstat ''public/file.txt.br''])"
    and sA: "serveStatic ?P ?opts ?A ()
               = after ([Lstat ''public/file.txt''] @ [Lstat ''public/file.txt.br''])
                   (respond ?P ?A hA (''public/file.txt'' @ ''.br'') (file_of_size 120))"
    using C6_table_order [OF locA on ct aeA accA firstA pstA evA] by blast
  obtain hB where nB: "negotiate ?P ?opts ?B ''public/file.txt'' (file_of_size 500)
                         = ((hB, ''public/file.txt'' @ ''.gz'', file_of_size 150),
                            [Lstat ''public/file.txt.zst'', Lstat ''public/file.txt.gz''])"
    and sB: "serveStatic ?P ?opts ?B ()
               = after ([Lstat ''public/file.txt'']
                        @ [Lstat ''public/file.txt.zst'', Lstat ''public/file.txt.gz''])
                   (respond ?P ?B hB (''public/file.txt'' @ ''.gz'') (file_of_size 150))"
    using C6_table_order [OF locB on ct aeB accB firstB pstB evB] by blast
  obtain hC where nC: "negotiate ?P ?opts ?C ''public/app.js'' (file_of_size 900)
                         = ((hC, ''public/app.js'' @ ''.zst'', file_of_size 320),
                            [Lstat ''public/app.js.zst''])"
    and sC: "serveStatic ?P ?opts ?C ()
               = after ([Lstat ''public/app.js''] @ [Lstat ''public/app.js.zst''])
                   (respond ?P ?C hC (''public/app.js'' @ ''.zst'') (file_of_size 320))"
    using C6_table_order [OF locC on ctC aeC accB firstC pstC evC] by blast
  obtain hD where nD: "negotiate ?P ?opts ?D ''public/app.js'' (file_of_size 900)
                         = ((hD, ''public/app.js'' @ ''.br'', file_of_size 300),
                            [Lstat ''public/app.js.br''])"
    and sD: "serveStatic ?P ?opts ?D ()
               = after ([Lstat ''public/app.js''] @ [Lstat ''public/app.js.br''])
                   (respond ?P ?D hD (''public/app.js'' @ ''.br'') (file_of_size 300))"
    using C6_table_order [OF locD on ctC aeD accD firstD pstD evD] by blast
  have hD: "hD = [(''content-type'', ''text/javascript''), (''content-encoding'', ''br''),
                  (''vary'', ''Accept-Encoding'')]"
  proof -
    have "negotiate ?P ?opts ?D ''public/app.js'' (file_of_size 900)
            = (([(''content-type'', ''text/javascript''), (''content-encoding'', ''br''),
                 (''vary'', ''Accept-Encoding'')], ''public/app.js.br'', file_of_size 300),
               [Lstat ''public/app.js.br''])"
      by code_simp
    then show ?thesis using nD by simp
  qed
  have hA: "hA = [(''content-type'', ''text/plain''), (''content-encoding'', ''br''),
                  (''vary'', ''Accept-Encoding'')]"
  proof -
    have "negotiate ?P ?opts ?A ''public/file.txt'' (file_of_size 500)
            = (([(''content-type'', ''text/plain''), (''content-encoding'', ''br''),
                 (''vary'', ''Accept-Encoding'')], ''public/file.txt.br'', file_of_size 120),
               [Lstat ''public/file.txt.br''])"
      by code_simp
    then show ?thesis using nA by simp
  qed
  have hB: "hB = [(''content-type'', ''text/plain''), (''content-encoding'', ''gzip''),
                  (''vary'', ''Accept-Encoding'')]"
  proof -
    have "negotiate ?P ?opts ?B ''public/file.txt'' (file_of_size 500)
            = (([(''content-type'', ''text/plain''), (''content-encoding'', ''gzip''),
                 (''vary'', ''Accept-Encoding'')], ''public/file.txt.gz'', file_of_size 150),
               [Lstat ''public/file.txt.zst'', Lstat ''public/file.txt.gz''])"
      by code_simp
    then show ?thesis using nB by simp
  qed
  have hC: "hC = [(''content-type'', ''text/javascript''), (''content-encoding'', ''zstd''),
                  (''vary'', ''Accept-Encoding'')]"
  proof -
    have "negotiate ?P ?opts ?C ''public/app.js'' (file_of_size 900)
            = (([(''content-type'', ''text/javascript''), (''content-encoding'', ''zstd''),
                 (''vary'', ''Accept-Encoding'')], ''public/app.js.zst'', file_of_size 320),
               [Lstat ''public/app.js.zst''])"
      by code_simp
    then show ?thesis using nC by simp
  qed
  have A: "serveStatic ?P ?opts ?A ()
       = (Inr \<lparr>status = 200,
                resp_headers = [(''content-type'', ''text/plain''), (''content-encoding'', ''br''),
                                (''vary'', ''Accept-Encoding''), (''content-length'', ''120'')],
                resp_body = StreamBody ''public/file.txt.br'' None\<rparr>,
          [Lstat ''public/file.txt'', Lstat ''public/file.txt.br'',
           CreateReadStream ''public/file.txt.br'' None])"
    unfolding sA respond_full [OF m(1,2) noR(1)] hA
    by (simp add: after_def ts lowers lower_names)
  have B: "serveStatic ?P ?opts ?B ()
       = (Inr \<lparr>status = 200,
                resp_headers = [(''content-type'', ''text/plain''), (''content-encoding'', ''gzip''),
                                (''vary'', ''Accept-Encoding''), (''content-length'', ''150'')],
                resp_body = StreamBody ''public/file.txt.gz'' None\<rparr>,
          [Lstat ''public/file.txt'', Lstat ''public/file.txt.zst'', Lstat ''public/file.txt.gz'',
           CreateReadStream ''public/file.txt.gz'' None])"
    unfolding sB respond_full [OF m(3,4) noR(2)] hB
    by (simp add: after_def ts lowers lower_names)
  have C: "serveStatic ?P ?opts ?C ()
       = (Inr \<lparr>status = 200,
                resp_headers = [(''content-type'', ''text/javascript''),
                                (''content-encoding'', ''zstd''),
                                (''vary'', ''Accept-Encoding''), (''content-length'', ''320'')],
                resp_body = StreamBody ''public/app.js.zst'' None\<rparr>,
          [Lstat ''public/app.js'', Lstat ''public/app.js.zst'',
           CreateReadStream ''public/app.js.zst'' None])"
    unfolding sC respond_full [OF m(5,6) noR(3)] hC
    by (simp add: after_def ts lowers lower_names)
  have D: "serveStatic ?P ?opts ?D ()
       = (Inr \<lparr>status = 200,
                resp_headers = [(''content-type'', ''text/javascript''),
                                (''content-encoding'', ''br''),
                                (''vary'', ''Accept-Encoding''), (''content-length'', ''300'')],
                resp_body = StreamBody ''public/app.js.br'' None\<rparr>,
          [Lstat ''public/app.js'', Lstat ''public/app.js.br'',
           CreateReadStream ''public/app.js.br'' None])"
    unfolding sD respond_full [OF m(7,8) noR(4)] hD
    by (simp add: after_def ts lowers lower_names)
  show ?thesis using rx A B C D by blast
qed

subsection \<open>Responses without a range\<close>







subsection \<open>Range requests\<close>

text \<open>
  Claim C4 says that the end of the range is the integer given, and the size minus one
  only where the field is absent or does not parse; in particular that an end of 0 is
  0. In the source the default is taken with \<open>||\<close>, for which 0 is as false as NaN:
  for \<open>bytes=0-0\<close> the end field parses to 0 and the end is the size minus one, so the
  whole file is sent instead of its first byte. The start is not affected, its default
  being 0; \<open>range_of_digits\<close> above has both fields for all numbers.
\<close>

theorem C4_end_zero_defaulted:
  "range_start ''bytes=0-0'' = 0
   \<and> parseInt (at_index (range_parts ''bytes=0-0'') 1) = Some 0
   \<and> range_end ''bytes=0-0'' 500 = 499
   \<and> serveStatic (example_platform example_entries) example_options
        (get_request ''/file.txt'' [(''Range'', ''bytes=0-0'')]) ()
       = (Inr \<lparr>status = 206,
                resp_headers = [(''content-type'', ''text/plain''), (''accept-ranges'', ''bytes''),
                                (''date'', ''Thu, 01 Jan 1970 00:00:00 GMT''),
                                (''content-length'', ''500''),
                                (''content-range'', ''bytes 0-499/500'')],
                resp_body = StreamBody ''public/file.txt'' (Some (0, 499))\<rparr>,
          [Lstat ''public/file.txt'', CreateReadStream ''public/file.txt'' (Some (0, 499))])"
  by code_simp

text \<open>
  Claim C5, as the source has it. A request that is neither HEAD nor OPTIONS, whose
  Range header is not the empty string, is answered with status 206 where the start of
  the range is not after its end; the size, the start and the end are safe integers,
  which JavaScript holds exactly. Where the size of the file is less than
  \<open>end - start + 1\<close>, the end is set to the size minus one. The response has
  \<open>Content-Range: bytes start-end/size\<close>, \<open>Content-Length\<close> equal to
  \<open>end - start + 1\<close>, \<open>Accept-Ranges: bytes\<close> and \<open>Date\<close> set to the creation time of
  the file that is served.
\<close>

theorem C5_range_response:
  assumes loc: "locate P options req env = Inr ((path0, st0), evs0)"
      and neg: "negotiate P options req path0 st0 = ((headers, path, st), evs1)"
      and m: "req_method req \<noteq> ''HEAD''" "req_method req \<noteq> ''OPTIONS''"
      and r: "headers_get (req_headers req) ''range'' = Some r" "r \<noteq> []"
      and s: "start = range_start r"
      and e0: "end0 = range_end r (st_size st)"
      and safe: "safe_integer (st_size st)" "safe_integer start" "safe_integer end0"
      and e: "end' = (if st_size st < end0 - start + 1 then st_size st - 1 else end0)"
      and ok: "start \<le> end'"
  shows "\<exists>resp. serveStatic P options req env
                  = (Inr resp, evs0 @ evs1 @ [CreateReadStream path (Some (start, end'))])
           \<and> status resp = 206
           \<and> headers_get (resp_headers resp) ''Content-Range''
               = Some (''bytes '' @ toString start @ ''-'' @ toString end' @ ''/''
                         @ toString (st_size st))
           \<and> headers_get (resp_headers resp) ''Content-Length'' = Some (toString (end' - start + 1))
           \<and> headers_get (resp_headers resp) ''Accept-Ranges'' = Some ''bytes''
           \<and> headers_get (resp_headers resp) ''Date'' = Some (toUTCString P (birthtime st))
           \<and> resp_body resp = StreamBody path (Some (start, end'))"
proof -
  have pr: "parse_range r (st_size st) = (start, end')"
    by (simp add: parse_range_def Let_def s e0 e)
  have "end' \<le> MAX_SAFE_INTEGER"
    using e safe by (auto simp: safe_integer_def split: if_splits)
  then have acc: "createReadStream_accepts start end'"
    using ok safe(2) range_start_nonneg [of r] s
    by (simp add: createReadStream_accepts_def safe_integer_def)
  from serveStatic_range [OF loc neg m r pr acc] show ?thesis
    by auto
qed

text \<open>The example of the claim, \<open>bytes=400-999\<close> on a file of 500 bytes, and a range
  within the file, \<open>bytes=100-199\<close>.\<close>

theorem C5_range_response_witness:
  "(\<exists>resp. serveStatic (example_platform example_entries) example_options
             (get_request ''/file.txt'' [(''Range'', ''bytes=400-999'')]) ()
           = (Inr resp, [Lstat ''public/file.txt'',
                         CreateReadStream ''public/file.txt'' (Some (400, 499))])
     \<and> status resp = 206
     \<and> headers_get (resp_headers resp) ''Content-Range'' = Some ''bytes 400-499/500''
     \<and> headers_get (resp_headers resp) ''Content-Length'' = Some ''100''
     \<and> headers_get (resp_headers resp) ''Accept-Ranges'' = Some ''bytes''
     \<and> headers_get (resp_headers resp) ''Date'' = Some ''Thu, 01 Jan 1970 00:00:00 GMT''
     \<and> resp_body resp = StreamBody ''public/file.txt'' (Some (400, 499)))
   \<and> (\<exists>resp. serveStatic (example_platform example_entries) example_options
             (get_request ''/file.txt'' [(''Range'', ''bytes=100-199'')]) ()
           = (Inr resp, [Lstat ''public/file.txt'',
                         CreateReadStream ''public/file.txt'' (Some (100, 199))])
     \<and> status resp = 206
     \<and> headers_get (resp_headers resp) ''Content-Range'' = Some ''bytes 100-199/500''
     \<and> headers_get (resp_headers resp) ''Content-Length'' = Some ''100''
     \<and> headers_get (resp_headers resp) ''Accept-Ranges'' = Some ''bytes''
     \<and> headers_get (resp_headers resp) ''Date'' = Some ''Thu, 01 Jan 1970 00:00:00 GMT''
     \<and> resp_body resp = StreamBody ''public/file.txt'' (Some (100, 199)))"
proof -
  let ?P = "example_platform example_entries"
  let ?req = "get_request ''/file.txt'' [(''Range'', ''bytes=400-999'')]"
  let ?req2 = "get_request ''/file.txt'' [(''Range'', ''bytes=100-199'')]"
  have loc: "locate ?P example_options ?req ()
               = Inr ((''public/file.txt'', file_of_size 500), [Lstat ''public/file.txt''])"
    by code_simp
  have neg: "negotiate ?P example_options ?req ''public/file.txt'' (file_of_size 500)
               = (([(''content-type'', ''text/plain'')], ''public/file.txt'', file_of_size 500), [])"
    by code_simp
  have loc2: "locate ?P example_options ?req2 ()
               = Inr ((''public/file.txt'', file_of_size 500), [Lstat ''public/file.txt''])"
    by code_simp
  have neg2: "negotiate ?P example_options ?req2 ''public/file.txt'' (file_of_size 500)
               = (([(''content-type'', ''text/plain'')], ''public/file.txt'', file_of_size 500), [])"
    by code_simp
  have m: "req_method ?req \<noteq> ''HEAD''" "req_method ?req \<noteq> ''OPTIONS''"
    and m2: "req_method ?req2 \<noteq> ''HEAD''" "req_method ?req2 \<noteq> ''OPTIONS''"
    by (simp_all add: get_request_def)
  have r: "headers_get (req_headers ?req) ''range'' = Some ''bytes=400-999''" "''bytes=400-999'' \<noteq> []"
    by code_simp+
  have r2: "headers_get (req_headers ?req2) ''range'' = Some ''bytes=100-199''" "''bytes=100-199'' \<noteq> []"
    by code_simp+
  have s: "(400::int) = range_start ''bytes=400-999''"
    and s2: "(100::int) = range_start ''bytes=100-199''"
    by code_simp+
  have e0: "(999::int) = range_end ''bytes=400-999'' (st_size (file_of_size 500))"
    and e02: "(199::int) = range_end ''bytes=100-199'' (st_size (file_of_size 500))"
    by code_simp+
  have safe: "safe_integer (st_size (file_of_size 500))" "safe_integer 400" "safe_integer 999"
             "safe_integer 100" "safe_integer 199"
    by code_simp+
  have sz: "st_size (file_of_size 500) = 500"
    by (simp add: file_of_size_def)
  have e: "(499::int) = (if st_size (file_of_size 500) < 999 - 400 + 1
                         then st_size (file_of_size 500) - 1 else 999)"
    and e2: "(199::int) = (if st_size (file_of_size 500) < 199 - 100 + 1
                         then st_size (file_of_size 500) - 1 else 199)"
    by (simp_all add: sz)
  have ok: "(400::int) \<le> 499" and ok2: "(100::int) \<le> 199"
    by simp_all
  have ts: "toString 400 = ''400''" "toString 499 = ''499''" "toString 500 = ''500''"
           "toString 100 = ''100''" "toString 199 = ''199''"
    by code_simp+
  have d: "toUTCString ?P (birthtime (file_of_size 500)) = ''Thu, 01 Jan 1970 00:00:00 GMT''"
    by code_simp
  have a: "\<exists>resp. serveStatic ?P example_options ?req ()
           = (Inr resp, [Lstat ''public/file.txt'',
                         CreateReadStream ''public/file.txt'' (Some (400, 499))])
     \<and> status resp = 206
     \<and> headers_get (resp_headers resp) ''Content-Range'' = Some ''bytes 400-499/500''
     \<and> headers_get (resp_headers resp) ''Content-Length'' = Some ''100''
     \<and> headers_get (resp_headers resp) ''Accept-Ranges'' = Some ''bytes''
     \<and> headers_get (resp_headers resp) ''Date'' = Some ''Thu, 01 Jan 1970 00:00:00 GMT''
     \<and> resp_body resp = StreamBody ''public/file.txt'' (Some (400, 499))"
    using C5_range_response [OF loc neg m r s e0 safe(1,2,3) e ok]
    by (simp add: ts d sz)
  have b: "\<exists>resp. serveStatic ?P example_options ?req2 ()
           = (Inr resp, [Lstat ''public/file.txt'',
                         CreateReadStream ''public/file.txt'' (Some (100, 199))])
     \<and> status resp = 206
     \<and> headers_get (resp_headers resp) ''Content-Range'' = Some ''bytes 100-199/500''
     \<and> headers_get (resp_headers resp) ''Content-Length'' = Some ''100''
     \<and> headers_get (resp_headers resp) ''Accept-Ranges'' = Some ''bytes''
     \<and> headers_get (resp_headers resp) ''Date'' = Some ''Thu, 01 Jan 1970 00:00:00 GMT''
     \<and> resp_body resp = StreamBody ''public/file.txt'' (Some (100, 199))"
    using C5_range_response [OF loc2 neg2 m2 r2 s2 e02 safe(1,4,5) e2 ok2]
    by (simp add: ts d sz)
  show ?thesis using a b by blast
qed

text \<open>Claim C5 as it is stated fails for a Range header with the empty string as its
  value, which the handler takes for none and answers with status 200 and the whole
  file, and for a range with its start after its end: \<open>createReadStream\<close> refuses it and
  the handler throws before there is a response.\<close>

theorem C5_refused_range_counterexample:
  "headers_get (req_headers (get_request ''/file.txt'' [(''Range'', [])])) ''range'' = Some []
   \<and> serveStatic (example_platform example_entries) example_options
        (get_request ''/file.txt'' [(''Range'', [])]) ()
       = (Inr \<lparr>status = 200,
                resp_headers = [(''content-type'', ''text/plain''), (''content-length'', ''500'')],
                resp_body = StreamBody ''public/file.txt'' None\<rparr>,
          [Lstat ''public/file.txt'', CreateReadStream ''public/file.txt'' None])
   \<and> headers_get (req_headers (get_request ''/file.txt'' [(''Range'', ''bytes=10-5'')])) ''range''
       = Some ''bytes=10-5''
   \<and> parse_range ''bytes=10-5'' 500 = (10, 5)
   \<and> serveStatic (example_platform example_entries) example_options
        (get_request ''/file.txt'' [(''Range'', ''bytes=10-5'')]) ()
       = (Inl RangeError,
          [Lstat ''public/file.txt'', CreateReadStream ''public/file.txt'' (Some (10, 5))])"
  by code_simp




text \<open>
  Claim C10 says that a request that is neither HEAD nor OPTIONS, with the Range header
  \<open>bytes=<start>-\<close> and a start that is at least the size of the file, is answered
  with status 206. In the source the end is the size minus one, as the claim has it,
  and so is less than the start; nothing checks the range before line 171 hands it to
  \<open>createReadStream\<close>, which refuses a start after the end with a RangeError. The
  handler throws there, before the headers of lines 173 and 174 are set and before the
  response of line 176 exists.
\<close>

theorem C10_start_beyond_size:
  assumes loc: "locate P options req env = Inr ((path0, st0), evs0)"
      and neg: "negotiate P options req path0 st0 = ((headers, path, st), evs1)"
      and m: "req_method req \<noteq> ''HEAD''" "req_method req \<noteq> ''OPTIONS''"
      and r: "headers_get (req_headers req) ''range'' = Some (''bytes='' @ ds @ ''-'')"
      and ds: "ds \<noteq> []" "list_all is_digit ds"
      and n: "start = digits_val ds" "st_size st \<le> start"
      and safe: "0 \<le> st_size st" "start \<le> MAX_SAFE_INTEGER"
  shows "parse_range (''bytes='' @ ds @ ''-'') (st_size st) = (start, st_size st - 1)
         \<and> st_size st - 1 < start
         \<and> serveStatic P options req env
             = (Inl RangeError,
                evs0 @ evs1 @ [CreateReadStream path (Some (start, st_size st - 1))])"
proof -
  have s: "range_start (''bytes='' @ ds @ ''-'') = start"
    unfolding range_start_def range_parts_open [OF ds(2)]
    by (simp add: at_index_def parseInt_digits [OF ds] or_default_def n(1))
  have e: "range_end (''bytes='' @ ds @ ''-'') (st_size st) = st_size st - 1"
    unfolding range_end_def range_parts_open [OF ds(2)]
    by (simp add: at_index_def parseInt_empty or_default_def)
  have start0: "0 \<le> start" using n(1) digits_val_nonneg by simp
  have pr: "parse_range (''bytes='' @ ds @ ''-'') (st_size st) = (start, st_size st - 1)"
    unfolding parse_range_def s e using start0 by (simp add: Let_def)
  have ne: "''bytes='' @ ds @ ''-'' \<noteq> []" by simp
  have no: "\<not> createReadStream_accepts start (st_size st - 1)"
    using n(2) by (simp add: createReadStream_accepts_def)
  from serveStatic_refused [OF loc neg m r ne pr no] pr n(2) show ?thesis
    by simp
qed

text \<open>The example of the claim, \<open>bytes=600-\<close> on a file of 500 bytes, and \<open>bytes=0-\<close> on
  an empty file, where the end is -1.\<close>

theorem C10_start_beyond_size_witness:
  "parse_range ''bytes=600-'' 500 = (600, 499)
   \<and> serveStatic (example_platform example_entries) example_options
        (get_request ''/file.txt'' [(''Range'', ''bytes=600-'')]) ()
       = (Inl RangeError,
          [Lstat ''public/file.txt'', CreateReadStream ''public/file.txt'' (Some (600, 499))])
   \<and> parse_range ''bytes=0-'' 0 = (0, - 1)
   \<and> serveStatic (example_platform example_entries) example_options
        (get_request ''/zero.txt'' [(''Range'', ''bytes=0-'')]) ()
       = (Inl RangeError,
          [Lstat ''public/zero.txt'', CreateReadStream ''public/zero.txt'' (Some (0, - 1))])"
proof -
  let ?P = "example_platform example_entries"
  let ?req = "get_request ''/file.txt'' [(''Range'', ''bytes=600-'')]"
  let ?empty = "get_request ''/zero.txt'' [(''Range'', ''bytes=0-'')]"
  have loc: "locate ?P example_options ?req ()
               = Inr ((''public/file.txt'', file_of_size 500), [Lstat ''public/file.txt''])"
    and loc0: "locate ?P example_options ?empty ()
               = Inr ((''public/zero.txt'', file_of_size 0), [Lstat ''public/zero.txt''])"
    by code_simp+
  have neg: "negotiate ?P example_options ?req ''public/file.txt'' (file_of_size 500)
               = (([(''content-type'', ''text/plain'')], ''public/file.txt'', file_of_size 500), [])"
    and neg0: "negotiate ?P example_options ?empty ''public/zero.txt'' (file_of_size 0)
               = (([(''content-type'', ''text/plain'')], ''public/zero.txt'', file_of_size 0), [])"
    by code_simp+
  have m: "req_method ?req \<noteq> ''HEAD''" "req_method ?req \<noteq> ''OPTIONS''"
    and m0: "req_method ?empty \<noteq> ''HEAD''" "req_method ?empty \<noteq> ''OPTIONS''"
    by (simp_all add: get_request_def)
  have r: "headers_get (req_headers ?req) ''range'' = Some (''bytes='' @ ''600'' @ ''-'')"
    and r0: "headers_get (req_headers ?empty) ''range'' = Some (''bytes='' @ ''0'' @ ''-'')"
    by code_simp+
  have ds: "''600'' \<noteq> []" "list_all is_digit ''600''"
    and ds0: "''0'' \<noteq> []" "list_all is_digit ''0''"
    by code_simp+
  have n: "(600::int) = digits_val ''600''" "st_size (file_of_size 500) \<le> (600::int)"
    and n0: "(0::int) = digits_val ''0''" "st_size (file_of_size 0) \<le> (0::int)"
    by code_simp+
  have safe: "0 \<le> st_size (file_of_size 500)" "(600::int) \<le> MAX_SAFE_INTEGER"
    and safe0: "0 \<le> st_size (file_of_size 0)" "(0::int) \<le> MAX_SAFE_INTEGER"
    by code_simp+
  have sz: "st_size (file_of_size 500) = 500" "st_size (file_of_size 0) = 0"
    by (simp_all add: file_of_size_def)
  from C10_start_beyond_size [OF loc neg m r ds n safe]
       C10_start_beyond_size [OF loc0 neg0 m0 r0 ds0 n0 safe0]
  show ?thesis
    by (simp add: sz)
qed

end
